theory Spec2Isabelle
  imports Main "HOL-Library.AList"
begin

section \<open>JavaScript values and objects\<close>

text \<open>
  The services exchange plain JavaScript objects: request bodies, Sequelize rows, DTOs and
  the response envelope. An object is an association list in insertion order; a missing
  key reads as \<open>undefined\<close>. No model of the repository declares a numeric column
  (every column is UUID, STRING, TEXT, DATE, ENUM or BOOLEAN), so the value type has no
  number. Dates are kept as ISO-8601 strings.
\<close>

datatype val =
    Undefined
  | Null
  | Str string
  | Bool bool
  | Obj "(string \<times> val) list"
  | Arr "val list"

type_synonym obj = "(string \<times> val) list"

text \<open>\<open>o.k\<close> and \<open>o?.k\<close> on an object.\<close>

definition get :: "obj \<Rightarrow> string \<Rightarrow> val" where
  "get ob k = (case map_of ob k of None \<Rightarrow> Undefined | Some v \<Rightarrow> v)"

text \<open>The object spread \<open>{...o, k: v}\<close>: \<open>k\<close> keeps its place when \<open>o\<close> has it already.\<close>

definition put :: "obj \<Rightarrow> string \<Rightarrow> val \<Rightarrow> obj" where
  "put ob k v = AList.update k v ob"

text \<open>JavaScript truthiness, as used by \<open>if (x)\<close> and \<open>!x\<close>.\<close>

fun truthy :: "val \<Rightarrow> bool" where
  "truthy Undefined = False"
| "truthy Null = False"
| "truthy (Str s) = (s \<noteq> [])"
| "truthy (Bool b) = b"
| "truthy (Obj _) = True"
| "truthy (Arr _) = True"

text \<open>String conversion inside a template literal \<open>`${v}`\<close>.\<close>

fun joinComma :: "string list \<Rightarrow> string" where
  "joinComma [] = []"
| "joinComma [s] = s"
| "joinComma (s # t # ss) = s @ '','' @ joinComma (t # ss)"

fun toStr :: "val \<Rightarrow> string" where
  "toStr Undefined = ''undefined''"
| "toStr Null = ''null''"
| "toStr (Str s) = s"
| "toStr (Bool b) = (if b then ''true'' else ''false'')"
| "toStr (Obj _) = ''[object Object]''"
| "toStr (Arr vs) =
     joinComma (map (\<lambda>v. if v = Null \<or> v = Undefined then [] else toStr v) vs)"

section \<open>The response envelope (Messages, src/utils/messages.js lines 1-29)\<close>

text \<open>
  \<open>Messages.success(message)\<close> and \<open>Messages.error(message)\<close> return
  \<open>{ status, timestamp: new Date().toISOString(), message }\<close>. The clock reading is the
  first argument here.
\<close>

definition Messages_success :: "string \<Rightarrow> val \<Rightarrow> val" where
  "Messages_success ts message =
     Obj [(''status'', Str ''success''), (''timestamp'', Str ts), (''message'', message)]"

definition Messages_error :: "string \<Rightarrow> val \<Rightarrow> val" where
  "Messages_error ts message =
     Obj [(''status'', Str ''error''), (''timestamp'', Str ts), (''message'', message)]"

text \<open>Reading a property of a value that may not be an object.\<close>

fun propOf :: "val \<Rightarrow> string \<Rightarrow> val" where
  "propOf (Obj ob) k = get ob k"
| "propOf _ k = Undefined"

fun hasKey :: "val \<Rightarrow> string \<Rightarrow> bool" where
  "hasKey (Obj ob) k = (k \<in> set (map fst ob))"
| "hasKey _ k = False"

section \<open>The store: Sequelize over a relational database\<close>

text \<open>
  Sequelize and the database are libraries outside the repository. They are modelled by an
  in-memory store: one list of rows per table, in insertion order. \<open>uuidv4\<close> and
  \<open>draws\<close> stand for the random source behind \<open>DataTypes.UUIDV4\<close> (the
  \<open>n\<close>-th draw is \<open>uuidv4 n\<close>; nothing is assumed about it, so a collision
  is a primary-key violation as in the database), \<open>now\<close> is the clock reading, and
  \<open>isEmail\<close> is the e-mail test of the validation library behind \<open>isEmail: true\<close>.
\<close>

record store =
  tables :: "string \<Rightarrow> obj list"
  uuidv4 :: "nat \<Rightarrow> string"
  draws :: nat
  now :: string
  isEmail :: "string \<Rightarrow> bool"

text \<open>
  A model definition is the pair given to \<open>sequelize.define\<close>: the table name and the
  columns with their options. Options a definition leaves out take Sequelize's defaults
  (\<open>allowNull: true\<close>, no default value, not unique, no validators).
\<close>

datatype coltype = UUID | STRING | TEXT | DATE | BOOLEAN | ENUM "string list"

datatype dflt = UUIDV4 | NOW | Lit val

text \<open>
  The \<open>validate\<close> options the models use: \<open>is: /regex/\<close> (the regular expression
  as a predicate on strings), \<open>isEmail: true\<close> and \<open>len: [lo, hi]\<close>.
\<close>

datatype validator = Is "string \<Rightarrow> bool" | IsEmail | Len nat nat

record column =
  ctype :: coltype
  defaultValue :: "dflt option"
  primaryKey :: bool
  allowNull :: bool
  unique :: bool
  references :: "(string \<times> string) option"
  validate :: "validator list"

type_synonym model = "string \<times> (string \<times> column) list"

definition col :: "coltype \<Rightarrow> column" where
  "col t = \<lparr>ctype = t, defaultValue = None, primaryKey = False, allowNull = True,
            unique = False, references = None, validate = []\<rparr>"

definition columnNames :: "model \<Rightarrow> string list" where
  "columnNames m = map fst (snd m)"

definition pkOf :: "model \<Rightarrow> string" where
  "pkOf m = (case filter (\<lambda>(k, c). primaryKey c) (snd m) of
               [] \<Rightarrow> ''id'' | (k, c) # _ \<Rightarrow> k)"

definition rowsOf :: "store \<Rightarrow> model \<Rightarrow> obj list" where
  "rowsOf st m = tables st (fst m)"

definition setRows :: "store \<Rightarrow> string \<Rightarrow> obj list \<Rightarrow> store" where
  "setRows st t rs = st\<lparr>tables := (tables st)(t := rs)\<rparr>"

text \<open>SQL equality in a join or a key lookup: \<open>NULL\<close> equals nothing.\<close>

definition sqlEq :: "val \<Rightarrow> val \<Rightarrow> bool" where
  "sqlEq a b = (a = b \<and> a \<noteq> Null \<and> a \<noteq> Undefined)"

subsection \<open>Validation\<close>

text \<open>
  A write is refused when a column that is \<open>allowNull: false\<close> would be null, when a
  value does not fit the column type (a string for the string, date and UUID types, one of
  the listed strings for an ENUM, a boolean for BOOLEAN), when a validator of the column's
  \<open>validate\<close> option fails, or when a \<open>references\<close> column names no row of the
  referenced table. The refusal is the thrown error's \<open>message\<close>.
\<close>

fun typeOK :: "coltype \<Rightarrow> val \<Rightarrow> bool" where
  "typeOK BOOLEAN (Bool b) = True"
| "typeOK BOOLEAN v = False"
| "typeOK (ENUM vs) (Str s) = (s \<in> set vs)"
| "typeOK (ENUM vs) v = False"
| "typeOK t (Str s) = True"
| "typeOK t v = False"

fun runValidator :: "store \<Rightarrow> validator \<Rightarrow> string \<Rightarrow> bool" where
  "runValidator st (Is p) s = p s"
| "runValidator st IsEmail s = isEmail st s"
| "runValidator st (Len lo hi) s = (lo \<le> length s \<and> length s \<le> hi)"

definition checkField :: "store \<Rightarrow> model \<Rightarrow> obj \<Rightarrow> string \<times> column \<Rightarrow> string option" where
  "checkField st m r kc =
     (let k = fst kc; c = snd kc; v = get r k in
      if v = Null \<or> v = Undefined then
        (if allowNull c then None
         else Some (''notNull Violation: '' @ fst m @ ''.'' @ k @ '' cannot be null''))
      else if \<not> typeOK (ctype c) v then
        Some (''Validation error: '' @ k @ '' is not a valid value'')
      else if \<not> list_all (\<lambda>p. runValidator st p (toStr v)) (validate c) then
        Some (''Validation error: Validation on '' @ k @ '' failed'')
      else (case references c of
              None \<Rightarrow> None
            | Some (t, key) \<Rightarrow>
                if list_ex (\<lambda>x. get x key = v) (tables st t) then None
                else Some ''a foreign key constraint fails''))"

fun firstError :: "('a \<Rightarrow> string option) \<Rightarrow> 'a list \<Rightarrow> string option" where
  "firstError f [] = None"
| "firstError f (x # xs) = (case f x of Some e \<Rightarrow> Some e | None \<Rightarrow> firstError f xs)"

text \<open>Validation of the columns named in \<open>fs\<close> (Sequelize validates the fields a write sets).\<close>

definition validateRow :: "store \<Rightarrow> model \<Rightarrow> string list \<Rightarrow> obj \<Rightarrow> string option" where
  "validateRow st m fs r =
     firstError (checkField st m r) (filter (\<lambda>(k, c). k \<in> set fs) (snd m))"

definition uniqueCols :: "model \<Rightarrow> string list" where
  "uniqueCols m = map fst (filter (\<lambda>(k, c). primaryKey c \<or> unique c) (snd m))"

subsection \<open>Model.create\<close>

text \<open>
  \<open>Model.create(data)\<close> builds a row from the model's columns (keys of \<open>data\<close> that are
  no column are dropped), fills a column that \<open>data\<close> leaves undefined from its
  \<open>defaultValue\<close> or with null, validates every column, has the database check the
  primary key and the \<open>unique\<close> columns, and appends the row. It resolves with the row
  or throws.
\<close>

definition fillDefault :: "store \<Rightarrow> column \<Rightarrow> val" where
  "fillDefault st c =
     (case defaultValue c of
        None \<Rightarrow> Null
      | Some UUIDV4 \<Rightarrow> Str (uuidv4 st (draws st))
      | Some NOW \<Rightarrow> Str (now st)
      | Some (Lit d) \<Rightarrow> d)"

definition build :: "model \<Rightarrow> obj \<Rightarrow> store \<Rightarrow> obj" where
  "build m data st =
     map (\<lambda>(k, c). (k, if get data k \<noteq> Undefined then get data k else fillDefault st c))
       (snd m)"

definition duplicateKey :: "model \<Rightarrow> obj \<Rightarrow> obj list \<Rightarrow> bool" where
  "duplicateKey m r rs =
     list_ex (\<lambda>k. list_ex (\<lambda>x. sqlEq (get x k) (get r k)) rs) (uniqueCols m)"

definition Model_create :: "model \<Rightarrow> obj \<Rightarrow> store \<Rightarrow> (string + obj) \<times> store" where
  "Model_create m data st =
     (let r = build m data st; st1 = st\<lparr>draws := Suc (draws st)\<rparr> in
      case validateRow st m (columnNames m) r of
        Some e \<Rightarrow> (Inl e, st1)
      | None \<Rightarrow>
          if duplicateKey m r (rowsOf st m) then (Inl ''Validation error'', st1)
          else (Inr r, setRows st1 (fst m) (rowsOf st m @ [r])))"

subsection \<open>Finders\<close>

text \<open>
  \<open>Model.findByPk(id)\<close> resolves with null for a null or undefined \<open>id\<close>, else with the
  row whose primary key is \<open>id\<close>, or null. \<open>Model.findAll({where})\<close> resolves with
  the rows equal to \<open>where\<close> on each of its keys (a null value selects the null
  entries); an undefined value in \<open>where\<close> makes Sequelize throw.
\<close>

definition Model_findByPk :: "model \<Rightarrow> val \<Rightarrow> store \<Rightarrow> obj option" where
  "Model_findByPk m ident st =
     (if ident = Null \<or> ident = Undefined then None
      else find (\<lambda>r. get r (pkOf m) = ident) (rowsOf st m))"

definition whereOK :: "obj \<Rightarrow> bool" where
  "whereOK w = (\<not> list_ex (\<lambda>(k, v). v = Undefined) w)"

definition matches :: "obj \<Rightarrow> obj \<Rightarrow> bool" where
  "matches w r = list_all (\<lambda>(k, v). get r k = v) w"

definition undefinedWhere :: string where
  "undefinedWhere = ''WHERE parameter has invalid \"undefined\" value''"

definition Model_findAll :: "model \<Rightarrow> obj \<Rightarrow> store \<Rightarrow> string + obj list" where
  "Model_findAll m w st =
     (if whereOK w then Inr (filter (matches w) (rowsOf st m)) else Inl undefinedWhere)"

definition Model_findOne :: "model \<Rightarrow> obj \<Rightarrow> store \<Rightarrow> string + obj option" where
  "Model_findOne m w st =
     (case Model_findAll m w st of
        Inl e \<Rightarrow> Inl e
      | Inr rs \<Rightarrow> Inr (case rs of [] \<Rightarrow> None | r # _ \<Rightarrow> Some r))"

subsection \<open>Updates\<close>

text \<open>
  An update sets the columns its values define, and \<open>updatedAt\<close> with them. The values
  are validated first; a value for a primary-key or \<open>unique\<close> column must not be held
  by a row the update does not touch. \<open>instance.update(values)\<close> never changes the
  primary key; it writes the columns whose value differs from the instance's to the row
  of the instance's key, and nothing when no value differs. Setting a property and calling
  \<open>instance.save()\<close> is the same update of that one column. The static
  \<open>Model.update(values, {where})\<close> writes every row that matches \<open>where\<close> and
  succeeds when no row does.
\<close>

definition definedCols :: "model \<Rightarrow> obj \<Rightarrow> string list" where
  "definedCols m vals = filter (\<lambda>k. get vals k \<noteq> Undefined) (columnNames m)"

fun assign :: "obj \<Rightarrow> string list \<Rightarrow> obj \<Rightarrow> obj" where
  "assign r [] vals = r"
| "assign r (k # ks) vals = assign (put r k (get vals k)) ks vals"

definition touch :: "model \<Rightarrow> store \<Rightarrow> obj \<Rightarrow> obj" where
  "touch m st r =
     (if ''updatedAt'' \<in> set (columnNames m) then put r ''updatedAt'' (Str (now st)) else r)"

definition writeRows :: "model \<Rightarrow> (obj \<Rightarrow> bool) \<Rightarrow> string list \<Rightarrow> obj \<Rightarrow> store \<Rightarrow> (string + unit) \<times> store" where
  "writeRows m sel ks vals st =
     (case validateRow st m ks vals of
        Some e \<Rightarrow> (Inl e, st)
      | None \<Rightarrow>
          if list_ex (\<lambda>k. k \<in> set ks \<and>
                list_ex (\<lambda>x. \<not> sel x \<and> sqlEq (get x k) (get vals k)) (rowsOf st m))
               (uniqueCols m)
          then (Inl ''Validation error'', st)
          else (Inr (),
                setRows st (fst m)
                  (map (\<lambda>x. if sel x then touch m st (assign x ks vals) else x) (rowsOf st m))))"

definition Model_update :: "model \<Rightarrow> obj \<Rightarrow> obj \<Rightarrow> store \<Rightarrow> (string + unit) \<times> store" where
  "Model_update m vals w st =
     (if \<not> whereOK w then (Inl undefinedWhere, st)
      else writeRows m (matches w) (definedCols m vals) vals st)"

definition Instance_update :: "model \<Rightarrow> obj \<Rightarrow> obj \<Rightarrow> store \<Rightarrow> (string + obj) \<times> store" where
  "Instance_update m inst vals st =
     (let ks = filter (\<lambda>k. k \<noteq> pkOf m) (definedCols m vals);
          changed = filter (\<lambda>k. get vals k \<noteq> get inst k) ks in
      case validateRow st m ks vals of
        Some e \<Rightarrow> (Inl e, st)
      | None \<Rightarrow>
          if changed = [] then (Inr inst, st)
          else case writeRows m (\<lambda>x. get x (pkOf m) = get inst (pkOf m)) changed vals st of
                 (Inl e, st') \<Rightarrow> (Inl e, st')
               | (Inr u, st') \<Rightarrow> (Inr (touch m st (assign inst changed vals)), st'))"

subsection \<open>Associations and instance.destroy\<close>

text \<open>
  The associations of src/configuration/Database.js, as the foreign keys they put on the
  child tables: parent table, child table, foreign key, and whether deleting the parent
  deletes the child rows (\<open>onDelete: "CASCADE"\<close>, also Sequelize's default for the join
  table of \<open>belongsToMany\<close>) or sets their key to null (the default of \<open>hasMany\<close>).
\<close>

datatype onDelete = CASCADE | SET_NULL

definition associations :: "(string \<times> string \<times> string \<times> onDelete) list" where
  "associations =
    [(''Categories'', ''Tasks'', ''categoryID'', SET_NULL),
     (''Tasks'', ''SubTasks'', ''taskID'', SET_NULL),
     (''Tasks'', ''TaskTags'', ''taskID'', CASCADE),
     (''Tags'', ''TaskTags'', ''tagID'', CASCADE),
     (''Tasks'', ''Notifications'', ''taskID'', CASCADE),
     (''Users'', ''Tasks'', ''userID'', SET_NULL),
     (''Workspaces'', ''Tasks'', ''workspaceID'', SET_NULL),
     (''Users'', ''UserWorkspaces'', ''userID'', CASCADE),
     (''Workspaces'', ''UserWorkspaces'', ''workspaceID'', CASCADE),
     (''Users'', ''Notifications'', ''userID'', SET_NULL),
     (''Users'', ''Sessions'', ''userID'', SET_NULL),
     (''Workspaces'', ''Sessions'', ''workspaceID'', SET_NULL),
     (''Sessions'', ''Notifications'', ''sessionID'', SET_NULL)]"

fun onParentDelete :: "string \<Rightarrow> val \<Rightarrow> (string \<times> string \<times> string \<times> onDelete) list \<Rightarrow> store \<Rightarrow> store" where
  "onParentDelete t ident [] st = st"
| "onParentDelete t ident ((parent, child, fk, act) # as) st =
     onParentDelete t ident as
       (if parent \<noteq> t then st
        else case act of
               CASCADE \<Rightarrow>
                 setRows st child (filter (\<lambda>x. \<not> sqlEq (get x fk) ident) (tables st child))
             | SET_NULL \<Rightarrow>
                 setRows st child
                   (map (\<lambda>x. if sqlEq (get x fk) ident then put x fk Null else x)
                      (tables st child)))"

text \<open>\<open>instance.destroy()\<close> deletes the row of the instance's primary key.\<close>

definition Instance_destroy :: "model \<Rightarrow> obj \<Rightarrow> store \<Rightarrow> store" where
  "Instance_destroy m inst st =
     onParentDelete (fst m) (get inst (pkOf m)) associations
       (setRows st (fst m)
          (filter (\<lambda>x. get x (pkOf m) \<noteq> get inst (pkOf m)) (rowsOf st m)))"

section \<open>The model definitions (src/model, src/unnamed/part_002 and part_003)\<close>

definition letters :: string where
  "letters = ''abcdefghijklmnopqrstuvwxyzABCDEFGHIJKLMNOPQRSTUVWXYZ''"

text \<open>\<open>/^[a-zA-Z]+$/\<close> and \<open>/^[0-9\\-]+$/\<close>.\<close>

definition isAlpha :: "string \<Rightarrow> bool" where
  "isAlpha s = (s \<noteq> [] \<and> list_all (\<lambda>c. c \<in> set letters) s)"

definition isPhone :: "string \<Rightarrow> bool" where
  "isPhone s = (s \<noteq> [] \<and> list_all (\<lambda>c. c \<in> set ''0123456789-'') s)"

definition idColumn :: column where
  "idColumn = (col UUID)\<lparr>defaultValue := Some UUIDV4, primaryKey := True, allowNull := False\<rparr>"

definition refColumn :: "string \<Rightarrow> string \<Rightarrow> column" where
  "refColumn t k = (col UUID)\<lparr>references := Some (t, k)\<rparr>"

definition stampColumn :: column where
  "stampColumn = (col DATE)\<lparr>defaultValue := Some NOW\<rparr>"

definition required :: "coltype \<Rightarrow> column" where
  "required t = (col t)\<lparr>allowNull := False\<rparr>"

definition enumColumn :: "string list \<Rightarrow> string \<Rightarrow> column" where
  "enumColumn vs d = (col (ENUM vs))\<lparr>defaultValue := Some (Lit (Str d))\<rparr>"

definition UserModel :: model where
  "UserModel = (''Users'',
    [(''userID'', idColumn),
     (''firstName'', (required STRING)\<lparr>validate := [Is isAlpha]\<rparr>),
     (''lastName'', (required STRING)\<lparr>validate := [Is isAlpha]\<rparr>),
     (''phoneNumber'', (col STRING)\<lparr>validate := [Is isPhone]\<rparr>),
     (''Email'', (required STRING)\<lparr>unique := True, validate := [IsEmail]\<rparr>),
     (''Password'', (required STRING)\<lparr>validate := [Len 8 100]\<rparr>),
     (''createdAt'', stampColumn),
     (''updatedAt'', stampColumn)])"

definition CategoryModel :: model where
  "CategoryModel = (''Categories'',
    [(''categoryID'', idColumn),
     (''workspaceID'', refColumn ''Workspaces'' ''workspaceID''),
     (''name'', required STRING),
     (''description'', col TEXT),
     (''createdAt'', stampColumn),
     (''updatedAt'', stampColumn)])"

definition TagModel :: model where
  "TagModel = (''Tags'',
    [(''tagID'', idColumn),
     (''workspaceID'', refColumn ''Workspaces'' ''workspaceID''),
     (''name'', required STRING),
     (''createdAt'', stampColumn),
     (''updatedAt'', stampColumn)])"

definition TaskModel :: model where
  "TaskModel = (''Tasks'',
    [(''taskID'', idColumn),
     (''workspaceID'', refColumn ''Workspaces'' ''workspaceID''),
     (''categoryID'', refColumn ''Categories'' ''categoryID''),
     (''userID'', refColumn ''Users'' ''userID''),
     (''title'', required STRING),
     (''description'', col TEXT),
     (''dueDate'', col DATE),
     (''status'', enumColumn [''Not Started'', ''In Progress'', ''Completed''] ''Not Started''),
     (''priority'', enumColumn [''Low'', ''Medium'', ''High''] ''Medium''),
     (''createdAt'', stampColumn),
     (''updatedAt'', stampColumn)])"

definition SubTaskModel :: model where
  "SubTaskModel = (''SubTasks'',
    [(''subTaskID'', idColumn),
     (''taskID'', refColumn ''Tasks'' ''taskID''),
     (''title'', required STRING),
     (''description'', col TEXT),
     (''dueDate'', col DATE),
     (''status'', enumColumn [''Pending'', ''In Progress'', ''Completed''] ''Pending''),
     (''priority'', enumColumn [''Low'', ''Medium'', ''High''] ''Medium''),
     (''createdAt'', stampColumn),
     (''updatedAt'', stampColumn)])"

definition TaskTagModel :: model where
  "TaskTagModel = (''TaskTags'',
    [(''taskID'', refColumn ''Tasks'' ''taskID''),
     (''tagID'', refColumn ''Tags'' ''tagID'')])"

text \<open>
  \<open>sessionID\<close> is no column of the Notification definition; the association
  \<open>Session.hasMany(Notification, { foreignKey: "sessionID" })\<close> adds it.
\<close>

definition NotificationModel :: model where
  "NotificationModel = (''Notifications'',
    [(''notificationID'', idColumn),
     (''taskID'', refColumn ''Tasks'' ''taskID''),
     (''userID'', refColumn ''Users'' ''userID''),
     (''content'', required TEXT),
     (''type'', enumColumn [''Invite'', ''Announcement'', ''Reminder''] ''Reminder''),
     (''readStatus'', enumColumn [''Unread'', ''Read''] ''Unread''),
     (''createdAt'', stampColumn),
     (''updatedAt'', stampColumn),
     (''sessionID'', refColumn ''Sessions'' ''sessionID'')])"

text \<open>
  The remaining two entity definitions, Session and Workspace (both in src/model/Session.js);
  \<open>Workspace.hasMany(Session, { foreignKey: "workspaceID" })\<close> adds the session's
  \<open>workspaceID\<close>.
\<close>

definition WorkspaceModel :: model where
  "WorkspaceModel = (''Workspaces'',
    [(''workspaceID'', idColumn),
     (''name'', required STRING),
     (''description'', col TEXT),
     (''isActive'', (required BOOLEAN)\<lparr>defaultValue := Some (Lit (Bool False))\<rparr>),
     (''createdAt'', stampColumn),
     (''updatedAt'', stampColumn)])"



section \<open>Eager loading (the \<open>include\<close> option)\<close>

text \<open>
  An included association appears on the parent under the associated model's name:
  the array of child rows for \<open>hasMany\<close> and \<open>belongsToMany\<close>, the parent row or
  null for \<open>belongsTo\<close>. \<open>attributes\<close> selects the columns of the included rows;
  without it the rows come whole.
\<close>

definition pick :: "string list option \<Rightarrow> obj \<Rightarrow> obj" where
  "pick attrs r = (case attrs of None \<Rightarrow> r | Some as \<Rightarrow> map (\<lambda>a. (a, get r a)) as)"

definition children :: "store \<Rightarrow> string \<Rightarrow> string \<Rightarrow> val \<Rightarrow> obj list" where
  "children st child fk ident = filter (\<lambda>c. sqlEq (get c fk) ident) (tables st child)"

definition includeMany :: "store \<Rightarrow> string \<Rightarrow> string \<Rightarrow> string list option \<Rightarrow> val \<Rightarrow> val" where
  "includeMany st child fk attrs ident = Arr (map (\<lambda>c. Obj (pick attrs c)) (children st child fk ident))"

text \<open>The tags of a task through the join table TaskTags, restricted by the include's \<open>where\<close>.\<close>

definition tagsOf :: "store \<Rightarrow> obj \<Rightarrow> obj \<Rightarrow> obj list" where
  "tagsOf st w t =
     filter (\<lambda>g. matches w g \<and>
                 list_ex (\<lambda>j. sqlEq (get j ''taskID'') (get t ''taskID'') \<and>
                              sqlEq (get j ''tagID'') (get g ''tagID''))
                   (tables st ''TaskTags''))
       (tables st ''Tags'')"

text \<open>The category of a task, restricted by the include's \<open>where\<close>.\<close>

definition categoryOf :: "store \<Rightarrow> obj \<Rightarrow> obj \<Rightarrow> obj option" where
  "categoryOf st w t =
     find (\<lambda>c. matches w c \<and> sqlEq (get c ''categoryID'') (get t ''categoryID''))
       (tables st ''Categories'')"

definition subTaskAttrs :: "string list" where
  "subTaskAttrs = [''subTaskID'', ''title'', ''status'', ''dueDate'']"

definition notificationAttrs :: "string list" where
  "notificationAttrs = [''notificationID'', ''content'', ''createdAt'', ''readStatus'']"

definition withSubTasks :: "store \<Rightarrow> obj \<Rightarrow> obj" where
  "withSubTasks st t =
     put t ''SubTasks'' (includeMany st ''SubTasks'' ''taskID'' (Some subTaskAttrs) (get t ''taskID''))"

definition withNotifications :: "store \<Rightarrow> obj \<Rightarrow> obj \<Rightarrow> obj" where
  "withNotifications st t acc =
     put acc ''Notifications''
       (includeMany st ''Notifications'' ''taskID'' (Some notificationAttrs) (get t ''taskID''))"

definition withTags :: "store \<Rightarrow> obj \<Rightarrow> obj \<Rightarrow> obj \<Rightarrow> obj" where
  "withTags st w t acc =
     put acc ''Tags'' (Arr (map (\<lambda>g. Obj (pick (Some [''tagID'', ''name'']) g)) (tagsOf st w t)))"

definition withCategory :: "store \<Rightarrow> obj \<Rightarrow> obj \<Rightarrow> obj \<Rightarrow> obj" where
  "withCategory st w t acc =
     put acc ''Category''
       (case categoryOf st w t of
          None \<Rightarrow> Null
        | Some c \<Rightarrow> Obj (pick (Some [''categoryID'', ''name'']) c))"

section \<open>TaskService (src/utils/messages.js lines 239-542)\<close>

text \<open>
  Every service method is \<open>try { ... return Messages.success(x) } catch (error)
  { return Messages.error(error?.message) }\<close>: it returns an envelope and the store it
  leaves behind.
\<close>

definition failure :: "store \<Rightarrow> string \<Rightarrow> val" where
  "failure st e = Messages_error (now st) (Str e)"

definition success :: "store \<Rightarrow> val \<Rightarrow> val" where
  "success st x = Messages_success (now st) x"

definition TaskService_findTaskByID :: "val \<Rightarrow> store \<Rightarrow> val \<times> store" where
  "TaskService_findTaskByID taskID st =
     (case Model_findByPk TaskModel taskID st of
        None \<Rightarrow> (failure st ''Task not found'', st)
      | Some t \<Rightarrow>
          (success st
             (Obj (withCategory st [] t (withTags st [] t (withNotifications st t (withSubTasks st t))))),
           st))"

definition TaskService_findTasksByTitle :: "val \<Rightarrow> val \<Rightarrow> store \<Rightarrow> val \<times> store" where
  "TaskService_findTasksByTitle taskTitle workspaceID st =
     (case Model_findAll TaskModel [(''title'', taskTitle), (''workspaceID'', workspaceID)] st of
        Inl e \<Rightarrow> (failure st e, st)
      | Inr tasks \<Rightarrow>
          (success st
             (Arr (map (\<lambda>t. Obj (withCategory st [] t
                                   (withTags st [] t (withNotifications st t (withSubTasks st t)))))
                     tasks)),
           st))"

text \<open>
  \<open>findTasksByTag\<close> puts its \<open>where\<close> on the included Tag, which makes the include
  required: a task is returned when it has a tag matching \<open>{ name, workspaceID }\<close>.
  The query has no \<open>where\<close> on the task itself.
\<close>

definition TaskService_findTasksByTag :: "val \<Rightarrow> val \<Rightarrow> store \<Rightarrow> val \<times> store" where
  "TaskService_findTasksByTag tagName workspaceID st =
     (let w = [(''name'', tagName), (''workspaceID'', workspaceID)] in
      if \<not> whereOK w then (failure st undefinedWhere, st)
      else
        (success st
           (Arr (map (\<lambda>t. Obj (withNotifications st t
                                 (put (withTags st w t t) ''SubTasks''
                                    (includeMany st ''SubTasks'' ''taskID'' (Some subTaskAttrs)
                                       (get t ''taskID'')))))
                   (filter (\<lambda>t. tagsOf st w t \<noteq> []) (rowsOf st TaskModel)))),
         st))"

text \<open>
  \<open>findTasksByCategory\<close> filters the task by \<open>workspaceID\<close> and requires a category
  of the given name.
\<close>

definition TaskService_findTasksByCategory :: "val \<Rightarrow> val \<Rightarrow> store \<Rightarrow> val \<times> store" where
  "TaskService_findTasksByCategory categoryName workspaceID st =
     (let w = [(''name'', categoryName)] in
      case Model_findAll TaskModel [(''workspaceID'', workspaceID)] st of
        Inl e \<Rightarrow> (failure st e, st)
      | Inr tasks \<Rightarrow>
          if \<not> whereOK w then (failure st undefinedWhere, st)
          else
            (success st
               (Arr (map (\<lambda>t. Obj (withNotifications st t
                                     (put (withCategory st w t t) ''SubTasks''
                                        (includeMany st ''SubTasks'' ''taskID'' (Some subTaskAttrs)
                                           (get t ''taskID'')))))
                       (filter (\<lambda>t. categoryOf st w t \<noteq> None) tasks))),
             st))"

definition TaskService_findAllTasks :: "val \<Rightarrow> store \<Rightarrow> val \<times> store" where
  "TaskService_findAllTasks workspaceID st =
     (case Model_findAll TaskModel [(''workspaceID'', workspaceID)] st of
        Inl e \<Rightarrow> (failure st e, st)
      | Inr tasks \<Rightarrow>
          (success st
             (Arr (map (\<lambda>t. Obj (withCategory st [] t
                                   (withTags st [] t (withNotifications st t (withSubTasks st t)))))
                     tasks)),
           st))"

text \<open>
  \<open>Promise.all(xs.map(f))\<close>: every call is started, in list order, before any result is
  awaited, so a rejected call does not stop the later ones. The promise rejects with a
  rejection of one of the calls (the first in list order here) or resolves with all the
  results.
\<close>

fun runAll :: "('a \<Rightarrow> store \<Rightarrow> (string + 'b) \<times> store) \<Rightarrow> 'a list \<Rightarrow> store \<Rightarrow> (string + 'b) list \<times> store" where
  "runAll f [] st = ([], st)"
| "runAll f (x # xs) st =
     (case f x st of (r, st1) \<Rightarrow> (case runAll f xs st1 of (rs, st2) \<Rightarrow> (r # rs, st2)))"

fun awaitAll :: "(string + 'b) list \<Rightarrow> string + 'b list" where
  "awaitAll [] = Inr []"
| "awaitAll (Inl e # rs) = Inl e"
| "awaitAll (Inr x # rs) = (case awaitAll rs of Inl e \<Rightarrow> Inl e | Inr xs \<Rightarrow> Inr (x # xs))"

text \<open>The callback of \<open>saveTask\<close>: \<open>SubTask.create({ ...subTask, taskID: newTask.taskID })\<close>.\<close>

definition createSubTask :: "obj \<Rightarrow> obj \<Rightarrow> store \<Rightarrow> (string + obj) \<times> store" where
  "createSubTask newTask subTask st =
     Model_create SubTaskModel (put subTask ''taskID'' (get newTask ''taskID'')) st"

definition TaskService_saveTask :: "obj \<Rightarrow> obj list \<Rightarrow> store \<Rightarrow> val \<times> store" where
  "TaskService_saveTask taskData subTasksData st =
     (case Model_create TaskModel taskData st of
        (Inl e, st1) \<Rightarrow> (failure st1 e, st1)
      | (Inr newTask, st1) \<Rightarrow>
          (case runAll (createSubTask newTask) subTasksData st1 of
             (rs, st2) \<Rightarrow>
               (case awaitAll rs of
                  Inl e \<Rightarrow> (failure st2 e, st2)
                | Inr subTasks \<Rightarrow>
                    (success st2 (Obj (put newTask ''SubTasks'' (Arr (map Obj subTasks)))), st2))))"

text \<open>
  The callback of \<open>updateTask\<close>: an entry with a truthy \<open>subTaskID\<close> is
  \<open>SubTask.update(subTask, { where: { subTaskID } })\<close>, any other entry is
  \<open>SubTask.create({ ...subTask, taskID: taskToUpdate.taskID })\<close>.
\<close>

definition updateOrCreateSubTask :: "obj \<Rightarrow> obj \<Rightarrow> store \<Rightarrow> (string + unit) \<times> store" where
  "updateOrCreateSubTask taskToUpdate subTask st =
     (if truthy (get subTask ''subTaskID'') then
        Model_update SubTaskModel subTask [(''subTaskID'', get subTask ''subTaskID'')] st
      else
        (case Model_create SubTaskModel (put subTask ''taskID'' (get taskToUpdate ''taskID'')) st of
           (Inl e, st') \<Rightarrow> (Inl e, st')
         | (Inr r, st') \<Rightarrow> (Inr (), st')))"

definition TaskService_updateTask :: "val \<Rightarrow> obj \<Rightarrow> obj list \<Rightarrow> store \<Rightarrow> val \<times> store" where
  "TaskService_updateTask taskID updatedTaskData updatedSubTasksData st =
     (case Model_findByPk TaskModel taskID st of
        None \<Rightarrow> (failure st ''Task not found'', st)
      | Some t \<Rightarrow>
          (let loaded = put t ''SubTasks'' (includeMany st ''SubTasks'' ''taskID'' None (get t ''taskID'')) in
           case Instance_update TaskModel loaded updatedTaskData st of
             (Inl e, st1) \<Rightarrow> (failure st1 e, st1)
           | (Inr taskToUpdate, st1) \<Rightarrow>
               (case runAll (updateOrCreateSubTask taskToUpdate) updatedSubTasksData st1 of
                  (rs, st2) \<Rightarrow>
                    (case awaitAll rs of
                       Inl e \<Rightarrow> (failure st2 e, st2)
                     | Inr us \<Rightarrow> (success st2 (Obj taskToUpdate), st2)))))"

text \<open>
  \<open>deleteTask\<close> loads the task with its subtasks, destroys every loaded subtask, and
  after that destroys the task.
\<close>

definition destroyAll :: "model \<Rightarrow> obj list \<Rightarrow> store \<Rightarrow> store" where
  "destroyAll m rs st = fold (Instance_destroy m) rs st"

definition TaskService_deleteTask :: "val \<Rightarrow> store \<Rightarrow> val \<times> store" where
  "TaskService_deleteTask taskID st =
     (case Model_findByPk TaskModel taskID st of
        None \<Rightarrow> (failure st ''Task not found'', st)
      | Some t \<Rightarrow>
          (let subTasks = children st ''SubTasks'' ''taskID'' (get t ''taskID'');
               taskToDelete = put t ''SubTasks'' (Arr (map Obj subTasks));
               st1 = destroyAll SubTaskModel subTasks st;
               st2 = Instance_destroy TaskModel taskToDelete st1
           in (success st2 (Obj taskToDelete), st2)))"

section \<open>NotificationService and its controller (src/service, src/controller)\<close>

definition NotificationService_createNotification :: "val \<Rightarrow> val \<Rightarrow> val \<Rightarrow> store \<Rightarrow> val \<times> store" where
  "NotificationService_createNotification userID content type st =
     (case Model_create NotificationModel
             [(''userID'', userID), (''content'', content),
              (''type'', if type = Undefined then Str ''Reminder'' else type),
              (''readStatus'', Str ''Unread'')] st of
        (Inl e, st1) \<Rightarrow> (failure st1 e, st1)
      | (Inr notification, st1) \<Rightarrow> (success st1 (Obj notification), st1))"

definition NotificationService_getNotificationsForUser :: "val \<Rightarrow> store \<Rightarrow> val \<times> store" where
  "NotificationService_getNotificationsForUser userID st =
     (case Model_findAll NotificationModel [(''userID'', userID)] st of
        Inl e \<Rightarrow> (failure st e, st)
      | Inr notifications \<Rightarrow> (success st (Arr (map Obj notifications)), st))"

definition NotificationService_markAsRead :: "val \<Rightarrow> store \<Rightarrow> val \<times> store" where
  "NotificationService_markAsRead notificationID st =
     (case Model_findByPk NotificationModel notificationID st of
        None \<Rightarrow> (failure st ''Notification not found'', st)
      | Some notification \<Rightarrow>
          (case Instance_update NotificationModel notification [(''readStatus'', Str ''Read'')] st of
             (Inl e, st1) \<Rightarrow> (failure st1 e, st1)
           | (Inr saved, st1) \<Rightarrow> (success st1 (Obj saved), st1)))"

definition NotificationService_deleteNotification :: "val \<Rightarrow> store \<Rightarrow> val \<times> store" where
  "NotificationService_deleteNotification notificationID st =
     (case Model_findByPk NotificationModel notificationID st of
        None \<Rightarrow> (failure st ''Notification not found'', st)
      | Some notification \<Rightarrow>
          (let st1 = Instance_destroy NotificationModel notification st in
           (success st1 (Str ''Notification deleted successfully''), st1)))"

text \<open>
  A controller answers with \<open>response.status(code).json(result)\<close>: the status code and
  the service's envelope as the body. \<open>createNotification\<close> reads \<open>userID\<close> and
  \<open>message\<close> from the request body and calls the service without a type.
\<close>

definition respond :: "nat \<Rightarrow> nat \<Rightarrow> val \<times> store \<Rightarrow> (nat \<times> val) \<times> store" where
  "respond ok bad res =
     ((if propOf (fst res) ''status'' = Str ''success'' then ok else bad, fst res), snd res)"

definition NotificationController_createNotification :: "obj \<Rightarrow> store \<Rightarrow> (nat \<times> val) \<times> store" where
  "NotificationController_createNotification body st =
     respond 201 400
       (NotificationService_createNotification (get body ''userID'') (get body ''message'') Undefined st)"

definition NotificationController_markAsRead :: "obj \<Rightarrow> store \<Rightarrow> (nat \<times> val) \<times> store" where
  "NotificationController_markAsRead params st =
     respond 200 400 (NotificationService_markAsRead (get params ''notificationID'') st)"

text \<open>The operations of the notification service, for statements about any of them.\<close>

datatype notificationOp =
    CreateNotification val val val
  | GetNotificationsForUser val
  | MarkAsRead val
  | DeleteNotification val

fun runNotificationOp :: "notificationOp \<Rightarrow> store \<Rightarrow> val \<times> store" where
  "runNotificationOp (CreateNotification u c t) st = NotificationService_createNotification u c t st"
| "runNotificationOp (GetNotificationsForUser u) st = NotificationService_getNotificationsForUser u st"
| "runNotificationOp (MarkAsRead n) st = NotificationService_markAsRead n st"
| "runNotificationOp (DeleteNotification n) st = NotificationService_deleteNotification n st"

section \<open>TagService and CategoryService (src/service)\<close>

text \<open>The included Workspace of \<open>findAllTags\<close> and \<open>findAllCategories\<close>.\<close>

definition withWorkspace :: "store \<Rightarrow> obj \<Rightarrow> obj" where
  "withWorkspace st r =
     put r ''Workspace''
       (case find (\<lambda>w. sqlEq (get w ''workspaceID'') (get r ''workspaceID'')) (tables st ''Workspaces'') of
          None \<Rightarrow> Null
        | Some w \<Rightarrow> Obj (pick (Some [''workspaceID'', ''name'', ''description'']) w))"


definition TagService_findTagByName :: "val \<Rightarrow> val \<Rightarrow> store \<Rightarrow> val \<times> store" where
  "TagService_findTagByName tagName workspaceID st =
     (case Model_findAll TagModel [(''name'', tagName), (''workspaceID'', workspaceID)] st of
        Inl e \<Rightarrow> (failure st e, st)
      | Inr tag \<Rightarrow> (success st (Arr (map Obj tag)), st))"

definition TagService_findAllTags :: "val \<Rightarrow> store \<Rightarrow> val \<times> store" where
  "TagService_findAllTags workspaceID st =
     (case Model_findAll TagModel [(''workspaceID'', workspaceID)] st of
        Inl e \<Rightarrow> (failure st e, st)
      | Inr tags \<Rightarrow> (success st (Arr (map (\<lambda>r. Obj (withWorkspace st r)) tags)), st))"



definition CategoryService_findCategoryByName :: "val \<Rightarrow> val \<Rightarrow> store \<Rightarrow> val \<times> store" where
  "CategoryService_findCategoryByName categoryName workspaceID st =
     (case Model_findAll CategoryModel [(''name'', categoryName), (''workspaceID'', workspaceID)] st of
        Inl e \<Rightarrow> (failure st e, st)
      | Inr category \<Rightarrow> (success st (Arr (map Obj category)), st))"

definition CategoryService_findAllCategories :: "val \<Rightarrow> store \<Rightarrow> val \<times> store" where
  "CategoryService_findAllCategories workspaceID st =
     (case Model_findAll CategoryModel [(''workspaceID'', workspaceID)] st of
        Inl e \<Rightarrow> (failure st e, st)
      | Inr categories \<Rightarrow> (success st (Arr (map (\<lambda>r. Obj (withWorkspace st r)) categories)), st))"


section \<open>User views (src/unnamed/part_005), UserService and the login strategy (src/unnamed/part_000)\<close>

definition UserEditView_toDTO :: "obj \<Rightarrow> val" where
  "UserEditView_toDTO user =
     Obj [(''firstName'', get user ''firstName''),
          (''lastName'', get user ''lastName''),
          (''email'', get user ''Email''),
          (''phoneNumber'', get user ''phoneNumber''),
          (''password'', get user ''Password''),
          (''createdAt'', get user ''createdAt'')]"

definition UserView_toDTO :: "obj \<Rightarrow> val" where
  "UserView_toDTO user =
     Obj [(''userId'', get user ''UserID''),
          (''fullName'', Str (toStr (get user ''firstName'') @ '' '' @ toStr (get user ''lastName''))),
          (''email'', get user ''Email''),
          (''phoneNumber'', get user ''phoneNumber''),
          (''createdAt'', get user ''createdAt'')]"


definition searchQuery :: "val \<Rightarrow> val \<Rightarrow> obj" where
  "searchQuery firstName lastName =
     (if truthy firstName then [(''firstName'', firstName)] else []) @
     (if truthy lastName then [(''lastName'', lastName)] else [])"

definition UserService_searchUsersByName :: "val \<Rightarrow> val \<Rightarrow> store \<Rightarrow> val \<times> store" where
  "UserService_searchUsersByName firstName lastName st =
     (let query = searchQuery firstName lastName in
      if length query = 0 then (failure st ''No search parameters provided'', st)
      else case Model_findAll UserModel query st of
             Inl e \<Rightarrow> (failure st e, st)
           | Inr users \<Rightarrow>
               if length users = 0 then (failure st ''No users found matching the criteria'', st)
               else (success st (Arr (map UserView_toDTO users)), st))"

definition UserService_saveUser :: "obj \<Rightarrow> store \<Rightarrow> val \<times> store" where
  "UserService_saveUser userData st =
     (case Model_create UserModel userData st of
        (Inl e, st1) \<Rightarrow> (failure st1 e, st1)
      | (Inr newUser, st1) \<Rightarrow> (success st1 (UserView_toDTO newUser), st1))"

definition UserService_updateUser :: "val \<Rightarrow> obj \<Rightarrow> store \<Rightarrow> val \<times> store" where
  "UserService_updateUser userID updatedUserData st =
     (case Model_findByPk UserModel userID st of
        None \<Rightarrow> (failure st ''User not found'', st)
      | Some userToUpdate \<Rightarrow>
          (case Instance_update UserModel userToUpdate updatedUserData st of
             (Inl e, st1) \<Rightarrow> (failure st1 e, st1)
           | (Inr updated, st1) \<Rightarrow> (success st1 (UserEditView_toDTO updated), st1)))"

definition UserController_searchUsersByName :: "obj \<Rightarrow> store \<Rightarrow> (nat \<times> val) \<times> store" where
  "UserController_searchUsersByName query st =
     respond 200 404 (UserService_searchUsersByName (get query ''firstName'') (get query ''lastName'') st)"

definition UserController_createUser :: "obj \<Rightarrow> store \<Rightarrow> (nat \<times> val) \<times> store" where
  "UserController_createUser body st =
     respond 201 400
       (UserService_saveUser (case get body ''userData'' of Obj d \<Rightarrow> d | _ \<Rightarrow> []) st)"

text \<open>
  The verify callback of the passport local strategy. \<open>bcrypt.compare\<close> is a library
  function, taken as the parameter \<open>compare\<close>; it throws when the stored value is no
  string. The three ways of calling \<open>done\<close> are the three results.
\<close>

datatype doneCall =
    DoneError string
  | DoneFalse string
  | DoneUser obj

definition LocalStrategy_verify :: "(string \<Rightarrow> string \<Rightarrow> bool) \<Rightarrow> string \<Rightarrow> string \<Rightarrow> store \<Rightarrow> doneCall" where
  "LocalStrategy_verify compare email password st =
     (case Model_findOne UserModel [(''Email'', Str email)] st of
        Inl e \<Rightarrow> DoneError e
      | Inr None \<Rightarrow> DoneFalse ''Incorrect email.''
      | Inr (Some user) \<Rightarrow>
          (case get user ''Password'' of
             Str hash \<Rightarrow>
               if \<not> compare password hash then DoneFalse ''Incorrect password.''
               else DoneUser user
           | _ \<Rightarrow> DoneError ''data and hash must be strings''))"

section \<open>Notions used in the statements\<close>

text \<open>A model whose primary-key column is declared \<open>allowNull: false\<close>.\<close>

definition keyed :: "model \<Rightarrow> bool" where
  "keyed m = list_ex (\<lambda>(k, c). k = pkOf m \<and> primaryKey c \<and> \<not> allowNull c) (snd m)"


text \<open>The elements of an array value, and \<open>Object.keys\<close> of an object value.\<close>

definition items :: "val \<Rightarrow> val list" where
  "items v = (case v of Arr vs \<Rightarrow> vs | _ \<Rightarrow> [])"

definition keysOf :: "val \<Rightarrow> string list" where
  "keysOf v = (case v of Obj ob \<Rightarrow> map fst ob | _ \<Rightarrow> [])"

text \<open>The results of the calls that resolved, in order.\<close>

fun resolved :: "(string + 'b) list \<Rightarrow> 'b list" where
  "resolved [] = []"
| "resolved (Inl e # rs) = resolved rs"
| "resolved (Inr x # rs) = x # resolved rs"

text \<open>The row that \<open>markAsRead\<close> saves: \<open>readStatus\<close> set to \<open>Read\<close>, \<open>updatedAt\<close> refreshed.\<close>

definition markRead :: "store \<Rightarrow> obj \<Rightarrow> obj" where
  "markRead st x = touch NotificationModel st (assign x [''readStatus''] [(''readStatus'', Str ''Read'')])"

text \<open>
  How the SubTasks table may change under entries \<open>es\<close>: no row disappears or moves, every
  row keeps its identifier, and a row whose identifier no entry carries stays as it is.
\<close>

definition keepsOthers :: "obj list \<Rightarrow> obj list \<Rightarrow> obj list \<Rightarrow> bool" where
  "keepsOthers es old new =
     (length old \<le> length new \<and>
      (\<forall>i<length old.
         get (new ! i) ''subTaskID'' = get (old ! i) ''subTaskID'' \<and>
         ((\<forall>e\<in>set es. truthy (get e ''subTaskID'') \<longrightarrow>
              get e ''subTaskID'' \<noteq> get (old ! i) ''subTaskID'') \<longrightarrow>
          new ! i = old ! i)))"

text \<open>
  A row \<open>x'\<close> is the row \<open>x\<close> after the partial update \<open>vals\<close>: a column that
  \<open>vals\<close> defines has the value of \<open>vals\<close>, any other column its value in \<open>x\<close>.
  The primary key stays, and nothing is said of \<open>updatedAt\<close>.
\<close>

definition patched :: "model \<Rightarrow> obj \<Rightarrow> obj \<Rightarrow> obj \<Rightarrow> bool" where
  "patched m vals x x' =
     (\<forall>k\<in>set (columnNames m). k \<noteq> ''updatedAt'' \<longrightarrow>
        get x' k = (if k \<noteq> pkOf m \<and> get vals k \<noteq> Undefined then get vals k else get x k))"

section \<open>Sample data\<close>

text \<open>An empty database with a fixed clock, a fixed sequence of UUIDs and a simple e-mail test.\<close>

definition emptyStore :: store where
  "emptyStore =
     \<lparr>tables = (\<lambda>t. []),
      uuidv4 = (\<lambda>n. ''id-'' @ replicate n (CHR ''i'')),
      draws = 0,
      now = ''2024-01-01T00:00:00.000Z'',
      isEmail = (\<lambda>s. CHR ''@'' \<in> set s)\<rparr>"

definition inserts :: "(model \<times> obj) list \<Rightarrow> store \<Rightarrow> store" where
  "inserts xs st = fold (\<lambda>(m, d) s. snd (Model_create m d s)) xs st"

text \<open>A task with two subtasks, saved through the service.\<close>

definition taskStore :: store where
  "taskStore =
     snd (TaskService_saveTask [(''title'', Str ''Write report'')]
            [[(''title'', Str ''Draft'')], [(''title'', Str ''Review'')]] emptyStore)"

text \<open>
  The update of the specification's scenario, for the task of \<open>taskStore\<close>: the task is
  completed, its first subtask is completed, and a subtask is added.
\<close>

definition scenarioPatch :: obj where
  "scenarioPatch = [(''status'', Str ''Completed'')]"

definition scenarioEntries :: "obj list" where
  "scenarioEntries =
     [[(''subTaskID'', Str ''id-i''), (''status'', Str ''Completed'')],
      [(''title'', Str ''new''), (''status'', Str ''Pending'')]]"

text \<open>Three subtask entries; the second has no title.\<close>

definition partialData :: "obj list" where
  "partialData = [[(''title'', Str ''Draft'')], [], [(''title'', Str ''Review'')]]"

text \<open>
  Two workspaces; the tag \<open>urgent\<close> belongs to workspace \<open>w1\<close>, the task to workspace
  \<open>w2\<close>, and a TaskTags row links the two. Every row passes the schema's checks.
\<close>

definition crossStore :: store where
  "crossStore =
     inserts
       [(WorkspaceModel, [(''workspaceID'', Str ''w1''), (''name'', Str ''Alpha'')]),
        (WorkspaceModel, [(''workspaceID'', Str ''w2''), (''name'', Str ''Beta'')]),
        (TagModel, [(''tagID'', Str ''g1''), (''workspaceID'', Str ''w1''), (''name'', Str ''urgent'')]),
        (TaskModel, [(''taskID'', Str ''t1''), (''workspaceID'', Str ''w2''), (''title'', Str ''Beta task'')]),
        (TaskTagModel, [(''taskID'', Str ''t1''), (''tagID'', Str ''g1'')])]
       emptyStore"


text \<open>The data of a user, and the store after the user is saved.\<close>

definition annData :: obj where
  "annData =
     [(''firstName'', Str ''Ann''), (''lastName'', Str ''Lee''), (''phoneNumber'', Str ''555-0100''),
      (''Email'', Str ''ann@example.org''), (''Password'', Str ''correct horse'')]"

definition annStore :: store where
  "annStore = snd (UserService_saveUser annData emptyStore)"

text \<open>A create request that also carries a \<open>readStatus\<close>, and the store it leaves.\<close>

definition noteBody :: obj where
  "noteBody = [(''message'', Str ''Stand-up at ten''), (''readStatus'', Str ''Read'')]"

definition noteStore :: store where
  "noteStore = snd (NotificationController_createNotification noteBody emptyStore)"

section \<open>Properties of objects and of the store\<close>

subsection \<open>Reading objects\<close>

lemma get_put: "get (put r k v) k' = (if k' = k then v else get r k')"
  by (simp add: get_def put_def update_conv')

lemma get_assign: "get (assign r ks vals) k = (if k \<in> set ks then get vals k else get r k)"
  by (induction r ks vals rule: assign.induct) (auto simp: get_put)

lemma get_touch: "k \<noteq> ''updatedAt'' \<Longrightarrow> get (touch m st r) k = get r k"
  by (simp add: touch_def get_put)

lemma get_build:
  "(k, c) \<in> set (snd m) \<Longrightarrow> get d k \<noteq> Undefined \<Longrightarrow> get (build m d st) k = get d k"
proof -
  assume kc: "(k, c) \<in> set (snd m)" and d: "get d k \<noteq> Undefined"
  have "\<And>cs. (k, c) \<in> set cs \<Longrightarrow>
     map_of (map (\<lambda>(k, c). (k, if get d k \<noteq> Undefined then get d k else fillDefault st c)) cs) k = Some (get d k)"
  proof -
    fix cs show "(k, c) \<in> set cs \<Longrightarrow>
     map_of (map (\<lambda>(k, c). (k, if get d k \<noteq> Undefined then get d k else fillDefault st c)) cs) k = Some (get d k)"
      using d by (induction cs) auto
  qed
  from this[OF kc] show ?thesis by (simp add: build_def get_def)
qed

subsection \<open>Creating rows and finding them again\<close>

lemma firstError_None: "firstError f xs = None \<longleftrightarrow> (\<forall>x\<in>set xs. f x = None)"
  by (induction xs) (auto split: option.splits)

lemma Model_create_Inr:
  "Model_create m d st = (Inr r, st') \<Longrightarrow>
     r = build m d st \<and> validateRow st m (columnNames m) r = None \<and> \<not> duplicateKey m r (rowsOf st m) \<and>
     st' = setRows (st\<lparr>draws := Suc (draws st)\<rparr>) (fst m) (rowsOf st m @ [r])"
  by (auto simp: Model_create_def Let_def split: option.splits if_splits)

lemma Model_create_Inl:
  "Model_create m d st = (Inl e, st') \<Longrightarrow> st' = st\<lparr>draws := Suc (draws st)\<rparr>"
  by (auto simp: Model_create_def Let_def split: option.splits if_splits)

lemma tables_setRows: "tables (setRows st t rs) t' = (if t' = t then rs else tables st t')"
  by (simp add: setRows_def)

lemma Model_create_tables:
  "Model_create m d st = (res, st') \<Longrightarrow> t \<noteq> fst m \<Longrightarrow> tables st' t = tables st t"
  by (cases res) (auto dest!: Model_create_Inr Model_create_Inl simp: tables_setRows)

lemma keyed_models: "keyed TaskModel" "keyed SubTaskModel" "keyed TagModel" "keyed CategoryModel" "keyed UserModel" "keyed NotificationModel"
  by (simp_all add: keyed_def pkOf_def TaskModel_def SubTaskModel_def TagModel_def CategoryModel_def UserModel_def NotificationModel_def idColumn_def col_def)

lemma pk_simps:
  "pkOf TaskModel = ''taskID''" "pkOf SubTaskModel = ''subTaskID''" "pkOf TagModel = ''tagID''"
  "pkOf CategoryModel = ''categoryID''" "pkOf UserModel = ''userID''" "pkOf NotificationModel = ''notificationID''"
  by (simp_all add: pkOf_def TaskModel_def SubTaskModel_def TagModel_def CategoryModel_def UserModel_def NotificationModel_def idColumn_def col_def
      refColumn_def required_def stampColumn_def enumColumn_def)

lemma table_simps:
  "fst TaskModel = ''Tasks''" "fst SubTaskModel = ''SubTasks''" "fst TagModel = ''Tags''"
  "fst CategoryModel = ''Categories''" "fst UserModel = ''Users''" "fst NotificationModel = ''Notifications''"
  by (simp_all add: TaskModel_def SubTaskModel_def TagModel_def CategoryModel_def UserModel_def NotificationModel_def)

lemma validated_pk:
  assumes k: "keyed m" and v: "validateRow st m (columnNames m) r = None"
  shows "get r (pkOf m) \<noteq> Null \<and> get r (pkOf m) \<noteq> Undefined"
proof -
  from k obtain c where c: "(pkOf m, c) \<in> set (snd m)" "\<not> allowNull c"
    by (auto simp: keyed_def list_ex_iff)
  then have "(pkOf m, c) \<in> set (filter (\<lambda>(k, c). k \<in> set (columnNames m)) (snd m))"
    by (force simp: columnNames_def)
  with v have "checkField st m r (pkOf m, c) = None"
    by (simp add: validateRow_def firstError_None)
  with c show ?thesis
    by (auto simp: checkField_def Let_def split: if_splits)
qed

lemma pk_unique: "keyed m \<Longrightarrow> pkOf m \<in> set (uniqueCols m)"
  by (force simp: keyed_def uniqueCols_def list_ex_iff)

lemma find_snoc_new:
  "\<forall>x\<in>set xs. \<not> P x \<Longrightarrow> P y \<Longrightarrow> find P (xs @ [y]) = Some y"
  by (induction xs) auto

lemma create_findByPk:
  assumes k: "keyed m" and c: "Model_create m d st = (Inr r, st')"
  shows "Model_findByPk m (get r (pkOf m)) st' = Some r"
proof -
  from Model_create_Inr[OF c] have v: "validateRow st m (columnNames m) r = None"
    and nd: "\<not> duplicateKey m r (rowsOf st m)"
    and st': "st' = setRows (st\<lparr>draws := Suc (draws st)\<rparr>) (fst m) (rowsOf st m @ [r])" by auto
  from validated_pk[OF k v] have nn: "get r (pkOf m) \<noteq> Null" "get r (pkOf m) \<noteq> Undefined" by auto
  from nd pk_unique[OF k] have "\<forall>x\<in>set (rowsOf st m). \<not> sqlEq (get x (pkOf m)) (get r (pkOf m))"
    by (auto simp: duplicateKey_def list_ex_iff)
  with nn have "\<forall>x\<in>set (rowsOf st m). \<not> (get x (pkOf m) = get r (pkOf m))"
    by (auto simp: sqlEq_def)
  then have "find (\<lambda>x. get x (pkOf m) = get r (pkOf m)) (rowsOf st m @ [r]) = Some r"
    by (rule find_snoc_new) simp
  with nn show ?thesis by (simp add: Model_findByPk_def st' rowsOf_def tables_setRows)
qed

lemma create_fields:
  assumes c: "Model_create m d st = (Inr r, st')" and k: "k \<in> set (columnNames m)" and d: "get d k \<noteq> Undefined"
  shows "get r k = get d k"
proof -
  from k obtain c where "(k, c) \<in> set (snd m)" by (auto simp: columnNames_def)
  from get_build[OF this d] Model_create_Inr[OF c] show ?thesis by simp
qed

subsection \<open>Destroying rows\<close>

lemma onParentDelete_SubTasks: "onParentDelete ''SubTasks'' i associations st = st"
  by (simp add: associations_def)

lemma onParentDelete_Notifications: "onParentDelete ''Notifications'' i associations st = st"
  by (simp add: associations_def)

lemma destroy_SubTask:
  "Instance_destroy SubTaskModel s st =
     setRows st ''SubTasks'' (filter (\<lambda>x. get x ''subTaskID'' \<noteq> get s ''subTaskID'') (tables st ''SubTasks''))"
  by (simp add: Instance_destroy_def pk_simps table_simps onParentDelete_SubTasks rowsOf_def)

lemma destroy_Task_tables:
  "tables (Instance_destroy TaskModel t st) ''Tasks'' = filter (\<lambda>x. get x ''taskID'' \<noteq> get t ''taskID'') (tables st ''Tasks'')"
  "tables (Instance_destroy TaskModel t st) ''SubTasks'' =
     map (\<lambda>x. if sqlEq (get x ''taskID'') (get t ''taskID'') then put x ''taskID'' Null else x) (tables st ''SubTasks'')"
  by (simp_all add: Instance_destroy_def pk_simps table_simps associations_def rowsOf_def tables_setRows)

lemma destroyAll_SubTasks:
  "tables (destroyAll SubTaskModel subs st) t =
     (if t = ''SubTasks''
      then filter (\<lambda>x. get x ''subTaskID'' \<notin> (\<lambda>s. get s ''subTaskID'') ` set subs) (tables st ''SubTasks'')
      else tables st t)"
proof (induction subs arbitrary: st)
  case Nil
  then show ?case by (simp add: destroyAll_def)
next
  case (Cons s subs)
  have "destroyAll SubTaskModel (s # subs) st = destroyAll SubTaskModel subs (Instance_destroy SubTaskModel s st)"
    by (simp add: destroyAll_def)
  then show ?case
    by (auto simp: Cons.IH destroy_SubTask tables_setRows intro: filter_cong)
qed

lemma findByPk_Some:
  "Model_findByPk m i st = Some r \<Longrightarrow> get r (pkOf m) = i \<and> i \<noteq> Null \<and> i \<noteq> Undefined \<and> r \<in> set (tables st (fst m))"
  by (auto simp: Model_findByPk_def rowsOf_def find_Some_iff split: if_splits) 

lemma findByPk_None_filter:
  "Model_findByPk m i st = None" if "\<forall>x\<in>set (tables st (fst m)). get x (pkOf m) \<noteq> i"
  using that by (auto simp: Model_findByPk_def rowsOf_def find_None_iff)

lemma findByPk_cong:
  "tables st' (fst m) = tables st (fst m) \<Longrightarrow> Model_findByPk m i st' = Model_findByPk m i st"
  by (simp add: Model_findByPk_def rowsOf_def)

subsection \<open>Envelopes and finders\<close>

lemma envelopes_differ: "success st x \<noteq> failure st' e"
  by (simp add: success_def failure_def Messages_success_def Messages_error_def)

lemma status_success: "propOf (success st x) ''status'' = Str ''success''"
  by (simp add: success_def Messages_success_def get_def)

lemma status_failure: "propOf (failure st e) ''status'' = Str ''error''"
  by (simp add: failure_def Messages_error_def get_def)

lemma findAll_ok: "whereOK w \<Longrightarrow> Model_findAll m w st = Inr (filter (matches w) (tables st (fst m)))"
  by (simp add: Model_findAll_def rowsOf_def)

lemma searchQuery_ok: "whereOK (searchQuery f l)"
  by (auto simp: whereOK_def searchQuery_def)

lemma searchQuery_matches:
  "matches (searchQuery f l) u \<longleftrightarrow> (truthy f \<longrightarrow> get u ''firstName'' = f) \<and> (truthy l \<longrightarrow> get u ''lastName'' = l)"
  by (auto simp: matches_def searchQuery_def)

lemma findOne_Email:
  "Model_findOne UserModel [(''Email'', Str email)] st =
     Inr (find (\<lambda>u. get u ''Email'' = Str email) (tables st ''Users''))"
proof -
  have m: "matches [(''Email'', Str email)] = (\<lambda>u. get u ''Email'' = Str email)"
    by (rule ext) (simp add: matches_def)
  have "\<And>P xs. (case filter P xs of [] \<Rightarrow> None | r # x \<Rightarrow> Some r) = find P xs"
  proof -
    fix P and xs :: "'a list" show "(case filter P xs of [] \<Rightarrow> None | r # x \<Rightarrow> Some r) = find P xs"
      by (induction xs) auto
  qed
  then show ?thesis
    by (simp add: Model_findOne_def findAll_ok whereOK_def table_simps m)
qed

lemma get_Nil: "get [] k = Undefined"
  by (simp add: get_def)

lemma get_Cons: "get ((k, v) # ob) k' = (if k' = k then v else get ob k')"
  by (simp add: get_def)

lemma Model_create_rows:
  "Model_create m d st = (Inr r, st') \<Longrightarrow> tables st' (fst m) = tables st (fst m) @ [r]"
  by (auto dest!: Model_create_Inr simp: tables_setRows rowsOf_def)

lemma Model_create_Inl_tables:
  "Model_create m d st = (Inl e, st') \<Longrightarrow> tables st' = tables st"
  by (auto dest!: Model_create_Inl)

subsection \<open>Notifications\<close>

lemma markRead_get:
  "get (markRead st x) ''readStatus'' = Str ''Read''"
  "get (markRead st x) ''notificationID'' = get x ''notificationID''"
  by (simp_all add: markRead_def get_touch get_put get_Cons)

lemma validate_readStatus:
  "validateRow st NotificationModel [''readStatus''] [(''readStatus'', Str ''Read'')] = None"
  by (simp add: validateRow_def NotificationModel_def checkField_def get_Cons enumColumn_def col_def Let_def)

lemma definedCols_readStatus:
  "definedCols NotificationModel [(''readStatus'', Str ''Read'')] = [''readStatus'']"
  by (simp add: definedCols_def columnNames_def NotificationModel_def get_Cons get_Nil)

lemma uniqueCols_Notification: "uniqueCols NotificationModel = [''notificationID'']"
  by (simp add: uniqueCols_def NotificationModel_def idColumn_def col_def refColumn_def required_def
      stampColumn_def enumColumn_def)

lemma markAsRead_found:
  assumes "Model_findByPk NotificationModel n st = Some r"
  shows "NotificationService_markAsRead n st =
     (if get r ''readStatus'' = Str ''Read'' then (success st (Obj r), st)
      else (success st (Obj (markRead st r)),
            setRows st ''Notifications''
              (map (\<lambda>x. if get x ''notificationID'' = n then markRead st x else x)
                 (tables st ''Notifications''))))"
proof -
  from findByPk_Some[OF assms] have "get r ''notificationID'' = n" by (simp add: pk_simps)
  then show ?thesis
    unfolding markRead_def
    by (simp add: NotificationService_markAsRead_def assms Instance_update_def definedCols_readStatus
        pk_simps validate_readStatus writeRows_def uniqueCols_Notification table_simps rowsOf_def
        success_def setRows_def get_Cons)
qed

lemma find_prefix: "find P xs = Some r \<Longrightarrow> find P (xs @ ys) = Some r"
  by (induction xs) auto

lemma find_filter_weaker: "(\<And>y. P y \<Longrightarrow> Q y) \<Longrightarrow> find P (filter Q xs) = find P xs"
  by (induction xs) auto

lemma find_map_same:
  "(\<And>x. P (f x) = P x) \<Longrightarrow> find P (map f xs) = map_option f (find P xs)"
  by (induction xs) auto

lemma destroy_Notification:
  "Instance_destroy NotificationModel x st =
     setRows st ''Notifications''
       (filter (\<lambda>y. get y ''notificationID'' \<noteq> get x ''notificationID'') (tables st ''Notifications''))"
  by (simp add: Instance_destroy_def pk_simps table_simps onParentDelete_Notifications rowsOf_def)

lemma findByPk_rows:
  "Model_findByPk m i st = (if i = Null \<or> i = Undefined then None else find (\<lambda>r. get r (pkOf m) = i) (tables st (fst m)))"
  by (simp add: Model_findByPk_def rowsOf_def)

lemma read_stays_read:
  assumes r: "Model_findByPk NotificationModel n st = Some r" and rd: "get r ''readStatus'' = Str ''Read''"
    and r': "Model_findByPk NotificationModel n (snd (runNotificationOp op st)) = Some r'"
  shows "get r' ''readStatus'' = Str ''Read''"
proof -
  let ?P = "\<lambda>x. get x ''notificationID'' = n"
  from findByPk_Some[OF r] have nn: "n \<noteq> Null" "n \<noteq> Undefined" by auto
  from r nn have f: "find ?P (tables st ''Notifications'') = Some r"
    by (simp add: findByPk_rows pk_simps table_simps)
  show ?thesis
  proof (cases op)
    case (CreateNotification u c t)
    obtain res st1 where c1: "Model_create NotificationModel
             [(''userID'', u), (''content'', c),
              (''type'', if t = Undefined then Str ''Reminder'' else t),
              (''readStatus'', Str ''Unread'')] st = (res, st1)" by force
    have st1: "snd (runNotificationOp op st) = st1"
      by (cases res) (simp_all add: CreateNotification NotificationService_createNotification_def c1)
    have "find ?P (tables st1 ''Notifications'') = Some r"
    proof (cases res)
      case (Inl e)
      with Model_create_Inl_tables c1 have "tables st1 = tables st" by blast
      with f show ?thesis by simp
    next
      case (Inr row)
      with Model_create_rows[of NotificationModel _ st row st1] c1
      have "tables st1 ''Notifications'' = tables st ''Notifications'' @ [row]"
        by (simp add: table_simps)
      with f show ?thesis by (simp add: find_prefix)
    qed
    with r' nn have "r' = r" by (simp add: st1 findByPk_rows pk_simps table_simps)
    with rd show ?thesis by simp
  next
    case (GetNotificationsForUser u)
    then have "snd (runNotificationOp op st) = st"
      by (simp add: NotificationService_getNotificationsForUser_def split: sum.splits)
    with r r' rd show ?thesis by simp
  next
    case (MarkAsRead m)
    show ?thesis
    proof (cases "Model_findByPk NotificationModel m st")
      case None
      then have "snd (runNotificationOp op st) = st"
        by (simp add: MarkAsRead NotificationService_markAsRead_def)
      with r r' rd show ?thesis by simp
    next
      case (Some x)
      let ?f = "\<lambda>x. if get x ''notificationID'' = m then markRead st x else x"
      from markAsRead_found[OF Some]
      consider "snd (runNotificationOp op st) = st"
        | "snd (runNotificationOp op st) = setRows st ''Notifications'' (map ?f (tables st ''Notifications''))"
        by (auto simp: MarkAsRead split: if_splits)
      then show ?thesis
      proof cases
        case 1
        with r r' rd show ?thesis by simp
      next
        case 2
        have "find ?P (map ?f (tables st ''Notifications'')) = map_option ?f (find ?P (tables st ''Notifications''))"
          by (rule find_map_same) (simp add: markRead_get)
        with f r' nn 2 have "r' = ?f r"
          by (simp add: findByPk_rows pk_simps table_simps tables_setRows)
        with rd show ?thesis by (simp add: markRead_get)
      qed
    qed
  next
    case (DeleteNotification m)
    show ?thesis
    proof (cases "Model_findByPk NotificationModel m st")
      case None
      then have "snd (runNotificationOp op st) = st"
        by (simp add: DeleteNotification NotificationService_deleteNotification_def)
      with r r' rd show ?thesis by simp
    next
      case (Some x)
      from findByPk_Some[OF Some] have xm: "get x ''notificationID'' = m" by (simp add: pk_simps)
      let ?Q = "\<lambda>y. get y ''notificationID'' \<noteq> m"
      have st2: "snd (runNotificationOp op st) = setRows st ''Notifications'' (filter ?Q (tables st ''Notifications''))"
        by (simp add: DeleteNotification NotificationService_deleteNotification_def Some Let_def
            destroy_Notification xm)
      with r' nn have f': "find ?P (filter ?Q (tables st ''Notifications'')) = Some r'"
        by (simp add: findByPk_rows pk_simps table_simps tables_setRows)
      then have "n \<noteq> m" by (auto simp: find_Some_iff dest: nth_mem)
      then have "find ?P (filter ?Q (tables st ''Notifications'')) = find ?P (tables st ''Notifications'')"
        by (intro find_filter_weaker) simp
      with f f' rd show ?thesis by simp
    qed
  qed
qed

lemma createNotification_unread:
  assumes "NotificationService_createNotification userID content type st = (res, st')"
    and "propOf res ''status'' = Str ''success''"
  shows "\<exists>row. propOf res ''message'' = Obj row \<and> get row ''readStatus'' = Str ''Unread'' \<and>
               tables st' ''Notifications'' = tables st ''Notifications'' @ [row]"
proof -
  let ?d = "[(''userID'', userID), (''content'', content),
              (''type'', if type = Undefined then Str ''Reminder'' else type),
              (''readStatus'', Str ''Unread'')]"
  obtain r st1 where c: "Model_create NotificationModel ?d st = (r, st1)" by force
  show ?thesis
  proof (cases r)
    case (Inl e)
    with assms c show ?thesis
      by (auto simp: NotificationService_createNotification_def status_failure)
  next
    case (Inr row)
    with c have c': "Model_create NotificationModel ?d st = (Inr row, st1)" by simp
    have "get row ''readStatus'' = get ?d ''readStatus''"
      by (rule create_fields[OF c']) (simp_all add: columnNames_def NotificationModel_def get_Cons)
    moreover from Model_create_rows[OF c'] have "tables st1 ''Notifications'' = tables st ''Notifications'' @ [row]"
      by (simp add: table_simps)
    moreover from assms c' have "res = success st1 (Obj row)" "st' = st1"
      by (auto simp: NotificationService_createNotification_def)
    ultimately show ?thesis
      by (simp add: success_def Messages_success_def get_Cons)
  qed
qed

subsection \<open>Creating a task with subtasks\<close>

lemma awaitAll_Inl: "(\<exists>e. awaitAll rs = Inl e) \<longleftrightarrow> (\<exists>e. Inl e \<in> set rs)"
  by (induction rs rule: awaitAll.induct) (auto split: sum.splits)


lemma createSubTask_effect:
  assumes c: "createSubTask t e st = (r, st')" and t: "get t ''taskID'' \<noteq> Undefined"
  shows "tables st' ''SubTasks'' = tables st ''SubTasks'' @ resolved [r]"
    and "x \<noteq> ''SubTasks'' \<Longrightarrow> tables st' x = tables st x"
    and "\<forall>row\<in>set (resolved [r]). get row ''taskID'' = get t ''taskID''"
proof -
  let ?d = "put e ''taskID'' (get t ''taskID'')"
  from c have m: "Model_create SubTaskModel ?d st = (r, st')" by (simp add: createSubTask_def)
  show "tables st' ''SubTasks'' = tables st ''SubTasks'' @ resolved [r]"
  proof (cases r)
    case (Inl e)
    with m Model_create_Inl_tables show ?thesis by fastforce
  next
    case (Inr row)
    with m Model_create_rows[of SubTaskModel ?d st row st'] show ?thesis by (simp add: table_simps)
  qed
  show "x \<noteq> ''SubTasks'' \<Longrightarrow> tables st' x = tables st x"
    using Model_create_tables[OF m, of x] by (simp add: table_simps)
  show "\<forall>row\<in>set (resolved [r]). get row ''taskID'' = get t ''taskID''"
  proof (cases r)
    case (Inl e)
    then show ?thesis by simp
  next
    case (Inr row)
    with m have "get row ''taskID'' = get ?d ''taskID''"
      using t by (intro create_fields[of SubTaskModel ?d st row st'])
        (simp_all add: get_put columnNames_def SubTaskModel_def)
    with Inr show ?thesis by (simp add: get_put)
  qed
qed

lemma resolved_append: "resolved (xs @ ys) = resolved xs @ resolved ys"
  by (induction xs rule: resolved.induct) auto

lemma runAll_createSubTask:
  assumes t: "get t ''taskID'' \<noteq> Undefined"
  shows "runAll (createSubTask t) es st = (rs, st') \<Longrightarrow>
     length rs = length es \<and>
     tables st' ''SubTasks'' = tables st ''SubTasks'' @ resolved rs \<and>
     (\<forall>x. x \<noteq> ''SubTasks'' \<longrightarrow> tables st' x = tables st x) \<and>
     (\<forall>row\<in>set (resolved rs). get row ''taskID'' = get t ''taskID'')"
proof (induction es arbitrary: st rs st')
  case Nil
  then show ?case by simp
next
  case (Cons e es)
  obtain r st1 where c: "createSubTask t e st = (r, st1)" by force
  obtain rs1 st2 where r: "runAll (createSubTask t) es st1 = (rs1, st2)" by force
  from Cons.prems c r have eq: "rs = r # rs1" "st' = st2" by simp_all
  note e = createSubTask_effect[OF c t]
  note ih = Cons.IH[OF r]
  have "resolved (r # rs1) = resolved [r] @ resolved rs1"
    using resolved_append[of "[r]" rs1] by simp
  with e ih show ?case unfolding eq by auto
qed

subsection \<open>The round trip of create and find\<close>








lemma message_success: "propOf (success st x) ''message'' = x"
  by (simp add: success_def Messages_success_def get_Cons)






lemma task_payload_get:
  "k \<notin> {''SubTasks'', ''Notifications'', ''Tags'', ''Category''} \<Longrightarrow>
   get (withCategory st w t (withTags st w' t (withNotifications st t (withSubTasks st t)))) k = get t k"
  by (simp add: withCategory_def withTags_def withNotifications_def withSubTasks_def get_put)

subsection \<open>Updating a task with subtasks\<close>

lemma keepsOthers_refl: "keepsOthers es xs xs"
  by (simp add: keepsOthers_def)

lemma keepsOthers_trans:
  "keepsOthers [e] a b \<Longrightarrow> keepsOthers es b c \<Longrightarrow> keepsOthers (e # es) a c"
  unfolding keepsOthers_def by (auto simp: Ball_def) 

lemma truthy_defined: "truthy v \<Longrightarrow> v \<noteq> Undefined \<and> v \<noteq> Null"
  by (cases v) auto

lemma uniqueCols_SubTask: "uniqueCols SubTaskModel = [''subTaskID'']"
  by (simp add: uniqueCols_def SubTaskModel_def idColumn_def col_def refColumn_def required_def
      stampColumn_def enumColumn_def)

lemma uniqueCols_Task: "uniqueCols TaskModel = [''taskID'']"
  by (simp add: uniqueCols_def TaskModel_def idColumn_def col_def refColumn_def required_def
      stampColumn_def enumColumn_def)

lemma matches_single: "matches [(k, v)] x \<longleftrightarrow> get x k = v"
  by (simp add: matches_def)

lemma SubTask_update:
  assumes i: "truthy (get e ''subTaskID'')"
    and u: "Model_update SubTaskModel e [(''subTaskID'', get e ''subTaskID'')] s = (r, s')"
  shows "(\<exists>er. r = Inl er \<and> s' = s) \<or>
         (r = Inr () \<and>
          s' = setRows s ''SubTasks''
                 (map (\<lambda>x. if get x ''subTaskID'' = get e ''subTaskID''
                           then touch SubTaskModel s (assign x (definedCols SubTaskModel e) e) else x)
                    (tables s ''SubTasks'')))"
proof -
  from truthy_defined[OF i] have w: "whereOK [(''subTaskID'', get e ''subTaskID'')]"
    by (simp add: whereOK_def)
  have m: "matches [(''subTaskID'', get e ''subTaskID'')] = (\<lambda>x. get x ''subTaskID'' = get e ''subTaskID'')"
    by (rule ext) (simp add: matches_single)
  have nc: "\<not> list_ex (\<lambda>k. k \<in> set (definedCols SubTaskModel e) \<and>
                list_ex (\<lambda>x. \<not> (get x ''subTaskID'' = get e ''subTaskID'') \<and> sqlEq (get x k) (get e k))
                  (rowsOf s SubTaskModel))
               (uniqueCols SubTaskModel)"
    by (auto simp: uniqueCols_SubTask list_ex_iff sqlEq_def)
  from u show ?thesis
    unfolding Model_update_def writeRows_def m
    using w nc by (auto simp: rowsOf_def table_simps split: option.splits)
qed

lemma get_patched_row:
  "k \<noteq> ''updatedAt'' \<Longrightarrow>
   get (touch m st (assign x ks vals)) k = (if k \<in> set ks then get vals k else get x k)"
  by (simp add: get_touch get_assign)

lemma definedCols_iff: "k \<in> set (definedCols m vals) \<longleftrightarrow> k \<in> set (columnNames m) \<and> get vals k \<noteq> Undefined"
  by (auto simp: definedCols_def)

lemma step_update:
  assumes i: "truthy (get e ''subTaskID'')"
    and u: "updateOrCreateSubTask tk e s = (r, s')"
  shows "keepsOthers [e] (tables s ''SubTasks'') (tables s' ''SubTasks'')"
    and "length (tables s' ''SubTasks'') = length (tables s ''SubTasks'')"
    and "x \<noteq> ''SubTasks'' \<Longrightarrow> tables s' x = tables s x"
    and "r = Inr () \<Longrightarrow> \<forall>j<length (tables s ''SubTasks'').
           get (tables s ''SubTasks'' ! j) ''subTaskID'' = get e ''subTaskID'' \<longrightarrow>
           patched SubTaskModel e (tables s ''SubTasks'' ! j) (tables s' ''SubTasks'' ! j)"
proof -
  let ?f = "\<lambda>x. if get x ''subTaskID'' = get e ''subTaskID''
                 then touch SubTaskModel s (assign x (definedCols SubTaskModel e) e) else x"
  from u i have mu: "Model_update SubTaskModel e [(''subTaskID'', get e ''subTaskID'')] s = (r, s')"
    by (simp add: updateOrCreateSubTask_def)
  from SubTask_update[OF i mu] consider "s' = s" "r \<noteq> Inr ()"
    | "r = Inr ()" "s' = setRows s ''SubTasks'' (map ?f (tables s ''SubTasks''))"
    by auto
  note cs = this
  have idk: "get (?f y) ''subTaskID'' = get y ''subTaskID''" for y
    by (simp add: get_patched_row definedCols_iff)
  show "keepsOthers [e] (tables s ''SubTasks'') (tables s' ''SubTasks'')"
  proof (cases rule: cs)
    case 1
    then show ?thesis by (simp add: keepsOthers_refl)
  next
    case 2
    then show ?thesis using idk i by (auto simp: keepsOthers_def tables_setRows)
  qed
  show "length (tables s' ''SubTasks'') = length (tables s ''SubTasks'')"
    by (cases rule: cs) (simp_all add: tables_setRows)
  show "x \<noteq> ''SubTasks'' \<Longrightarrow> tables s' x = tables s x"
    by (cases rule: cs) (simp_all add: tables_setRows)
  show "r = Inr () \<Longrightarrow> \<forall>j<length (tables s ''SubTasks'').
           get (tables s ''SubTasks'' ! j) ''subTaskID'' = get e ''subTaskID'' \<longrightarrow>
           patched SubTaskModel e (tables s ''SubTasks'' ! j) (tables s' ''SubTasks'' ! j)"
  proof (cases rule: cs)
    case 1
    then show "r = Inr () \<Longrightarrow> ?thesis" by simp
  next
    case 2
    show ?thesis
      unfolding patched_def 2
      by (auto simp: tables_setRows get_patched_row definedCols_iff pk_simps)
  qed
qed

lemma step_create:
  assumes i: "\<not> truthy (get e ''subTaskID'')"
    and u: "updateOrCreateSubTask tk e s = (r, s')"
  shows "keepsOthers [e] (tables s ''SubTasks'') (tables s' ''SubTasks'')"
    and "r \<noteq> Inr () \<Longrightarrow> tables s' ''SubTasks'' = tables s ''SubTasks''"
    and "x \<noteq> ''SubTasks'' \<Longrightarrow> tables s' x = tables s x"
    and "r = Inr () \<Longrightarrow> get tk ''taskID'' \<noteq> Undefined \<Longrightarrow>
           \<exists>row. tables s' ''SubTasks'' = tables s ''SubTasks'' @ [row] \<and> get row ''taskID'' = get tk ''taskID''"
    and "r = Inr () \<Longrightarrow> length (tables s' ''SubTasks'') = Suc (length (tables s ''SubTasks''))"
proof -
  obtain r0 where c: "createSubTask tk e s = (r0, s')" and rr: "r = (case r0 of Inl er \<Rightarrow> Inl er | Inr row \<Rightarrow> Inr ())"
    using u i by (auto simp: updateOrCreateSubTask_def createSubTask_def split: prod.splits sum.splits)
  from c have m: "Model_create SubTaskModel (put e ''taskID'' (get tk ''taskID'')) s = (r0, s')"
    by (simp add: createSubTask_def)
  have rows: "tables s' ''SubTasks'' = tables s ''SubTasks'' @ resolved [r0]"
  proof (cases r0)
    case (Inl er)
    with m Model_create_Inl_tables show ?thesis by fastforce
  next
    case (Inr row)
    with m Model_create_rows[of SubTaskModel _ s row s'] show ?thesis by (simp add: table_simps)
  qed
  then show "keepsOthers [e] (tables s ''SubTasks'') (tables s' ''SubTasks'')"
    by (simp add: keepsOthers_def nth_append)
  from rows rr show "r \<noteq> Inr () \<Longrightarrow> tables s' ''SubTasks'' = tables s ''SubTasks''"
    by (cases r0) simp_all
  show "x \<noteq> ''SubTasks'' \<Longrightarrow> tables s' x = tables s x"
    using Model_create_tables[OF m, of x] by (simp add: table_simps)
  from rows rr show "r = Inr () \<Longrightarrow> length (tables s' ''SubTasks'') = Suc (length (tables s ''SubTasks''))"
    by (cases r0) simp_all
  show "r = Inr () \<Longrightarrow> get tk ''taskID'' \<noteq> Undefined \<Longrightarrow>
           \<exists>row. tables s' ''SubTasks'' = tables s ''SubTasks'' @ [row] \<and> get row ''taskID'' = get tk ''taskID''"
    using createSubTask_effect(3)[OF c] rows rr by (cases r0) simp_all
qed

lemma awaitAll_Cons_Inr: "awaitAll (r # rs) = Inr us \<Longrightarrow> \<exists>u us'. r = Inr u \<and> awaitAll rs = Inr us'"
  by (cases r) (auto split: sum.splits)

lemma runAll_steps:
  "runAll (updateOrCreateSubTask tk) es s = (rs, s') \<Longrightarrow>
     keepsOthers es (tables s ''SubTasks'') (tables s' ''SubTasks'') \<and>
     (\<forall>x. x \<noteq> ''SubTasks'' \<longrightarrow> tables s' x = tables s x) \<and>
     (\<forall>us. awaitAll rs = Inr us \<longrightarrow>
        length (tables s' ''SubTasks'') =
          length (tables s ''SubTasks'') + length (filter (\<lambda>e. \<not> truthy (get e ''subTaskID'')) es))"
proof (induction es arbitrary: s rs s')
  case Nil
  then show ?case by (simp add: keepsOthers_refl)
next
  case (Cons e es)
  obtain r s1 where c: "updateOrCreateSubTask tk e s = (r, s1)" by force
  obtain rs1 s2 where ra: "runAll (updateOrCreateSubTask tk) es s1 = (rs1, s2)" by force
  from Cons.prems c ra have eq: "rs = r # rs1" "s' = s2" by simp_all
  note ih = Cons.IH[OF ra]
  have k1: "keepsOthers [e] (tables s ''SubTasks'') (tables s1 ''SubTasks'')"
    and o1: "\<forall>x. x \<noteq> ''SubTasks'' \<longrightarrow> tables s1 x = tables s x"
    and n1: "r = Inr () \<longrightarrow> length (tables s1 ''SubTasks'') =
               length (tables s ''SubTasks'') + (if truthy (get e ''subTaskID'') then 0 else 1)"
    using step_update[OF _ c] step_create[OF _ c] by (cases "truthy (get e ''subTaskID'')"; simp)+
  from keepsOthers_trans[OF k1] ih have "keepsOthers (e # es) (tables s ''SubTasks'') (tables s' ''SubTasks'')"
    by (simp add: eq)
  moreover from o1 ih have "\<forall>x. x \<noteq> ''SubTasks'' \<longrightarrow> tables s' x = tables s x" by (simp add: eq)
  moreover have "\<forall>us. awaitAll rs = Inr us \<longrightarrow>
        length (tables s' ''SubTasks'') =
          length (tables s ''SubTasks'') + length (filter (\<lambda>e. \<not> truthy (get e ''subTaskID'')) (e # es))"
  proof (intro allI impI)
    fix us assume "awaitAll rs = Inr us"
    with awaitAll_Cons_Inr[of r rs1 us] obtain us' where "r = Inr ()" "awaitAll rs1 = Inr us'"
      by (auto simp: eq)
    with n1 ih show "length (tables s' ''SubTasks'') =
          length (tables s ''SubTasks'') + length (filter (\<lambda>e. \<not> truthy (get e ''subTaskID'')) (e # es))"
      by (simp add: eq)
  qed
  ultimately show ?case by blast
qed

lemma writeRows_Inr:
  "writeRows m sel ks vals st = (Inr u, st') \<Longrightarrow>
     st' = setRows st (fst m) (map (\<lambda>x. if sel x then touch m st (assign x ks vals) else x) (rowsOf st m))"
  by (auto simp: writeRows_def split: option.splits if_splits)

lemma Instance_update_Inr:
  assumes "Instance_update m inst vals st = (Inr inst', st')"
  shows "(filter (\<lambda>k. get vals k \<noteq> get inst k) (filter (\<lambda>k. k \<noteq> pkOf m) (definedCols m vals)) = [] \<and>
          inst' = inst \<and> st' = st) \<or>
         (inst' = touch m st (assign inst
                    (filter (\<lambda>k. get vals k \<noteq> get inst k) (filter (\<lambda>k. k \<noteq> pkOf m) (definedCols m vals))) vals) \<and>
          writeRows m (\<lambda>x. get x (pkOf m) = get inst (pkOf m))
            (filter (\<lambda>k. get vals k \<noteq> get inst k) (filter (\<lambda>k. k \<noteq> pkOf m) (definedCols m vals))) vals st
            = (Inr (), st'))"
proof -
  define ks where "ks = filter (\<lambda>k. k \<noteq> pkOf m) (definedCols m vals)"
  define ch where "ch = filter (\<lambda>k. get vals k \<noteq> get inst k) ks"
  define w where "w = writeRows m (\<lambda>x. get x (pkOf m) = get inst (pkOf m)) ch vals st"
  have eq: "Instance_update m inst vals st =
     (case validateRow st m ks vals of
        Some e \<Rightarrow> (Inl e, st)
      | None \<Rightarrow>
          if ch = [] then (Inr inst, st)
          else case w of
                 (Inl e, st') \<Rightarrow> (Inl e, st')
               | (Inr u, st') \<Rightarrow> (Inr (touch m st (assign inst ch vals)), st'))"
    unfolding Instance_update_def Let_def ks_def ch_def w_def ..
  from assms[unfolded eq] have "(ch = [] \<and> inst' = inst \<and> st' = st) \<or>
     (inst' = touch m st (assign inst ch vals) \<and> w = (Inr (), st'))"
    by (cases "validateRow st m ks vals"; cases "ch = []"; cases w; cases "fst w") auto
  then show ?thesis unfolding ch_def ks_def w_def .
qed

lemma Task_update_Inr:
  assumes f: "Model_findByPk TaskModel taskID st = Some t"
    and lk: "\<forall>k\<in>set (columnNames TaskModel). get loaded k = get t k"
    and u: "Instance_update TaskModel loaded vals st = (Inr t', st1)"
  shows "get t' ''taskID'' = taskID"
    and "\<forall>x. x \<noteq> ''Tasks'' \<longrightarrow> tables st1 x = tables st x"
    and "\<exists>row. Model_findByPk TaskModel taskID st1 = Some row \<and> patched TaskModel vals t row"
proof -
  define ch where "ch = filter (\<lambda>k. get vals k \<noteq> get loaded k)
                         (filter (\<lambda>k. k \<noteq> pkOf TaskModel) (definedCols TaskModel vals))"
  define g where "g = (\<lambda>x. if get x ''taskID'' = get loaded ''taskID''
                            then touch TaskModel st (assign x ch vals) else x)"
  from findByPk_Some[OF f] have tid: "get t ''taskID'' = taskID" and nn: "taskID \<noteq> Null" "taskID \<noteq> Undefined"
    by (auto simp: pk_simps)
  have pkcol: "''taskID'' \<in> set (columnNames TaskModel)" by (simp add: columnNames_def TaskModel_def)
  with lk tid have ltid: "get loaded ''taskID'' = taskID" by auto
  have chk: "k \<in> set ch \<longleftrightarrow>
       k \<in> set (columnNames TaskModel) \<and> k \<noteq> ''taskID'' \<and> get vals k \<noteq> Undefined \<and> get vals k \<noteq> get loaded k" for k
    by (auto simp: ch_def definedCols_iff pk_simps)
  have gk: "get (g x) k = (if get x ''taskID'' = taskID \<and> k \<in> set ch then get vals k else get x k)"
    if "k \<noteq> ''updatedAt''" for x k
    using that by (simp add: g_def ltid get_patched_row)
  from Instance_update_Inr[OF u, folded ch_def]
  consider "t' = loaded" "st1 = st" "ch = []"
    | "t' = touch TaskModel st (assign loaded ch vals)"
      "writeRows TaskModel (\<lambda>x. get x (pkOf TaskModel) = get loaded (pkOf TaskModel)) ch vals st = (Inr (), st1)"
    by blast
  note cs = this
  have wr: "st1 = setRows st ''Tasks'' (map g (tables st ''Tasks''))"
    if "writeRows TaskModel (\<lambda>x. get x (pkOf TaskModel) = get loaded (pkOf TaskModel)) ch vals st = (Inr (), st1)"
    using writeRows_Inr[OF that] by (simp add: g_def pk_simps table_simps rowsOf_def)
  show "get t' ''taskID'' = taskID"
  proof (cases rule: cs)
    case 1
    then show ?thesis by (simp add: ltid)
  next
    case 2
    then show ?thesis by (simp add: ltid get_patched_row chk)
  qed
  show "\<forall>x. x \<noteq> ''Tasks'' \<longrightarrow> tables st1 x = tables st x"
  proof (cases rule: cs)
    case 1
    then show ?thesis by simp
  next
    case 2
    from wr[OF 2(2)] show ?thesis by (simp add: tables_setRows)
  qed
  show "\<exists>row. Model_findByPk TaskModel taskID st1 = Some row \<and> patched TaskModel vals t row"
  proof (cases rule: cs)
    case 1
    have "patched TaskModel vals t t"
      unfolding patched_def
    proof (intro ballI impI)
      fix k assume k: "k \<in> set (columnNames TaskModel)" "k \<noteq> ''updatedAt''"
      from 1(3) have "k \<notin> set ch" by simp
      with k lk show "get t k = (if k \<noteq> pkOf TaskModel \<and> get vals k \<noteq> Undefined then get vals k else get t k)"
        by (auto simp: chk pk_simps)
    qed
    with f 1 show ?thesis by simp
  next
    case 2
    have "find (\<lambda>r. get r ''taskID'' = taskID) (map g (tables st ''Tasks''))
            = map_option g (find (\<lambda>r. get r ''taskID'' = taskID) (tables st ''Tasks''))"
      by (rule find_map_same) (simp add: gk chk)
    with f nn have fr: "Model_findByPk TaskModel taskID st1 = Some (g t)"
      by (simp add: wr[OF 2(2)] findByPk_rows pk_simps table_simps tables_setRows)
    have "patched TaskModel vals t (g t)"
      unfolding patched_def
    proof (intro ballI impI)
      fix k assume k: "k \<in> set (columnNames TaskModel)" "k \<noteq> ''updatedAt''"
      with lk show "get (g t) k = (if k \<noteq> pkOf TaskModel \<and> get vals k \<noteq> Undefined then get vals k else get t k)"
        by (auto simp: gk tid chk pk_simps)
    qed
    with fr show ?thesis by blast
  qed
qed

lemma awaitAll_all_Inr: "awaitAll rs = Inr us \<Longrightarrow> \<forall>r\<in>set rs. \<exists>u. r = Inr u"
  using awaitAll_Inl[of rs] by (metis sum.exhaust sum.distinct(1))

lemma updateTask_unfold:
  assumes f: "Model_findByPk TaskModel taskID st = Some t"
  shows "(\<exists>e. TaskService_updateTask taskID vals es st = (failure st e, st)) \<or>
         (\<exists>t' st1 rs st2.
            Instance_update TaskModel
              (put t ''SubTasks'' (includeMany st ''SubTasks'' ''taskID'' None (get t ''taskID''))) vals st
              = (Inr t', st1) \<and>
            runAll (updateOrCreateSubTask t') es st1 = (rs, st2) \<and>
            snd (TaskService_updateTask taskID vals es st) = st2 \<and>
            (propOf (fst (TaskService_updateTask taskID vals es st)) ''status'' = Str ''success''
               \<longrightarrow> (\<exists>us. awaitAll rs = Inr us)))"
proof -
  let ?l = "put t ''SubTasks'' (includeMany st ''SubTasks'' ''taskID'' None (get t ''taskID''))"
  obtain r st1 where u: "Instance_update TaskModel ?l vals st = (r, st1)" by force
  show ?thesis
  proof (cases r)
    case (Inl e)
    with u have "st1 = st"
      by (auto simp: Instance_update_def writeRows_def Let_def split: option.splits if_splits)
    with Inl u f have "TaskService_updateTask taskID vals es st = (failure st e, st)"
      by (simp add: TaskService_updateTask_def Let_def)
    then show ?thesis by blast
  next
    case (Inr t')
    obtain rs st2 where ra: "runAll (updateOrCreateSubTask t') es st1 = (rs, st2)" by force
    with Inr u f have "snd (TaskService_updateTask taskID vals es st) = st2"
      "propOf (fst (TaskService_updateTask taskID vals es st)) ''status'' = Str ''success''
               \<longrightarrow> (\<exists>us. awaitAll rs = Inr us)"
      by (auto simp: TaskService_updateTask_def Let_def status_failure split: sum.splits)
    with Inr u ra show ?thesis by blast
  qed
qed

subsection \<open>Listings by workspace\<close>

text \<open>
  The listings that put \<open>workspaceID\<close> in the \<open>where\<close> of the listed model return rows
  of that workspace only.
\<close>

lemma findAll_rows:
  "Model_findAll m w st = Inr rs \<Longrightarrow> \<forall>r\<in>set rs. matches w r"
  by (auto simp: Model_findAll_def split: if_splits)

lemma matches_mem: "matches w r \<Longrightarrow> (k, v) \<in> set w \<Longrightarrow> get r k = v"
  by (auto simp: matches_def list_all_iff)

lemma findAll_scoped:
  "Model_findAll m w st = Inr rs \<Longrightarrow> (''workspaceID'', v) \<in> set w \<Longrightarrow> r \<in> set rs
     \<Longrightarrow> get r ''workspaceID'' = v"
  using findAll_rows matches_mem by blast

lemma items_failure: "items (propOf (failure st e) ''message'') = []"
  by (simp add: failure_def Messages_error_def get_Cons items_def)

lemma items_success: "items (propOf (success st (Arr vs)) ''message'') = vs"
  by (simp add: message_success items_def)

lemma withWorkspace_get: "k \<noteq> ''Workspace'' \<Longrightarrow> get (withWorkspace st r) k = get r k"
  by (simp add: withWorkspace_def get_put)

lemma category_payload_get:
  "k \<notin> {''SubTasks'', ''Notifications'', ''Category''} \<Longrightarrow>
   get (withNotifications st t (put (withCategory st w t t) ''SubTasks'' x)) k = get t k"
  by (simp add: withCategory_def withNotifications_def get_put)

lemma scoped_listings:
  "\<forall>t\<in>set (items (propOf (fst (TaskService_findAllTasks w st)) ''message'')). propOf t ''workspaceID'' = w"
  "\<forall>t\<in>set (items (propOf (fst (TaskService_findTasksByTitle title w st)) ''message'')). propOf t ''workspaceID'' = w"
  "\<forall>t\<in>set (items (propOf (fst (TaskService_findTasksByCategory name w st)) ''message'')). propOf t ''workspaceID'' = w"
  "\<forall>t\<in>set (items (propOf (fst (TagService_findAllTags w st)) ''message'')). propOf t ''workspaceID'' = w"
  "\<forall>t\<in>set (items (propOf (fst (TagService_findTagByName name w st)) ''message'')). propOf t ''workspaceID'' = w"
  "\<forall>t\<in>set (items (propOf (fst (CategoryService_findAllCategories w st)) ''message'')). propOf t ''workspaceID'' = w"
  "\<forall>t\<in>set (items (propOf (fst (CategoryService_findCategoryByName name w st)) ''message'')). propOf t ''workspaceID'' = w"
proof -
  show "\<forall>t\<in>set (items (propOf (fst (TaskService_findAllTasks w st)) ''message'')). propOf t ''workspaceID'' = w"
    by (auto simp: TaskService_findAllTasks_def items_failure items_success task_payload_get
        split: sum.splits dest: findAll_scoped[where v=w])
  show "\<forall>t\<in>set (items (propOf (fst (TaskService_findTasksByTitle title w st)) ''message'')). propOf t ''workspaceID'' = w"
    by (auto simp: TaskService_findTasksByTitle_def items_failure items_success task_payload_get
        split: sum.splits dest: findAll_scoped[where v=w])
  show "\<forall>t\<in>set (items (propOf (fst (TaskService_findTasksByCategory name w st)) ''message'')). propOf t ''workspaceID'' = w"
    by (auto simp: TaskService_findTasksByCategory_def Let_def items_failure items_success category_payload_get
        split: sum.splits dest: findAll_scoped[where v=w])
  show "\<forall>t\<in>set (items (propOf (fst (TagService_findAllTags w st)) ''message'')). propOf t ''workspaceID'' = w"
    by (auto simp: TagService_findAllTags_def items_failure items_success withWorkspace_get
        split: sum.splits dest: findAll_scoped[where v=w])
  show "\<forall>t\<in>set (items (propOf (fst (TagService_findTagByName name w st)) ''message'')). propOf t ''workspaceID'' = w"
    by (auto simp: TagService_findTagByName_def items_failure items_success
        split: sum.splits dest: findAll_scoped[where v=w])
  show "\<forall>t\<in>set (items (propOf (fst (CategoryService_findAllCategories w st)) ''message'')). propOf t ''workspaceID'' = w"
    by (auto simp: CategoryService_findAllCategories_def items_failure items_success withWorkspace_get
        split: sum.splits dest: findAll_scoped[where v=w])
  show "\<forall>t\<in>set (items (propOf (fst (CategoryService_findCategoryByName name w st)) ''message'')). propOf t ''workspaceID'' = w"
    by (auto simp: CategoryService_findCategoryByName_def items_failure items_success
        split: sum.splits dest: findAll_scoped[where v=w])
qed

section \<open>The claims\<close>

text \<open>
  C1. The claim: a successful operation answers \<open>{status: "success", data: payload}\<close>,
  with the payload under the key \<open>data\<close> and under no other key. On the code, the
  notification controller answers a valid create request with status 201 and a body whose
  keys are \<open>status\<close>, \<open>timestamp\<close> and \<open>message\<close>: the created notification is
  under \<open>message\<close> and the body has no \<open>data\<close> key. A failing operation (marking
  an unknown notification as read) answers 400 with \<open>{status: "error", timestamp,
  message}\<close>, as claimed.
\<close>

theorem success_payload_under_message:
  "(let res = fst (NotificationController_createNotification [(''message'', Str ''deadline tomorrow'')] emptyStore)
    in fst res = 201 \<and>
       keysOf (snd res) = [''status'', ''timestamp'', ''message''] \<and>
       propOf (snd res) ''status'' = Str ''success'' \<and>
       propOf (snd res) ''data'' = Undefined \<and>
       propOf (propOf (snd res) ''message'') ''content'' = Str ''deadline tomorrow'') \<and>
   fst (NotificationController_markAsRead [(''notificationID'', Str ''unknown'')] emptyStore) =
     (400, Obj [(''status'', Str ''error''), (''timestamp'', Str (now emptyStore)),
                (''message'', Str ''Notification not found'')])"
  by code_simp

text \<open>
  C2. \<open>deleteTask\<close> answers "Task not found" exactly when no task has the identifier.
  When the task exists, with any number of subtasks, the answer is a success; in the store
  \<open>st1\<close> left by destroying the loaded subtasks none of them is found while the task
  still is; the task is destroyed in that store; and in the final store neither the task
  nor any of the subtasks is found.
\<close>

theorem deleteTask_cascade:
  "(fst (TaskService_deleteTask taskID st) = failure st ''Task not found''
      \<longleftrightarrow> Model_findByPk TaskModel taskID st = None) \<and>
   (\<forall>t. Model_findByPk TaskModel taskID st = Some t \<longrightarrow>
      (let subTasks = children st ''SubTasks'' ''taskID'' (get t ''taskID'');
           st1 = destroyAll SubTaskModel subTasks st;
           st' = snd (TaskService_deleteTask taskID st)
       in propOf (fst (TaskService_deleteTask taskID st)) ''status'' = Str ''success'' \<and>
          (\<forall>s\<in>set subTasks. Model_findByPk SubTaskModel (get s ''subTaskID'') st1 = None) \<and>
          Model_findByPk TaskModel taskID st1 = Some t \<and>
          st' = Instance_destroy TaskModel (put t ''SubTasks'' (Arr (map Obj subTasks))) st1 \<and>
          fst (TaskService_findTaskByID taskID st') = failure st' ''Task not found'' \<and>
          (\<forall>s\<in>set subTasks. Model_findByPk SubTaskModel (get s ''subTaskID'') st' = None)))"
proof (cases "Model_findByPk TaskModel taskID st")
  case None
  then show ?thesis by (simp add: TaskService_deleteTask_def)
next
  case (Some t)
  define subTasks where "subTasks = children st ''SubTasks'' ''taskID'' (get t ''taskID'')"
  define st1 where "st1 = destroyAll SubTaskModel subTasks st"
  define loaded where "loaded = put t ''SubTasks'' (Arr (map Obj subTasks))"
  define st' where "st' = Instance_destroy TaskModel loaded st1"
  have run: "TaskService_deleteTask taskID st = (success st' (Obj loaded), st')"
    by (simp add: TaskService_deleteTask_def Some Let_def subTasks_def st1_def loaded_def st'_def)
  from findByPk_Some[OF Some] have tid: "get t ''taskID'' = taskID" and nn: "taskID \<noteq> Null" "taskID \<noteq> Undefined"
    by (auto simp: pk_simps)
  have lid: "get loaded ''taskID'' = taskID" by (simp add: loaded_def get_put tid)
  have gone1: "\<forall>s\<in>set subTasks. Model_findByPk SubTaskModel (get s ''subTaskID'') st1 = None"
    by (auto intro!: findByPk_None_filter simp: st1_def destroyAll_SubTasks table_simps pk_simps)
  have kept: "Model_findByPk TaskModel taskID st1 = Some t"
    using Some findByPk_cong[of st1 TaskModel st taskID] by (simp add: st1_def destroyAll_SubTasks table_simps)
  have noTask: "Model_findByPk TaskModel taskID st' = None"
    by (rule findByPk_None_filter) (auto simp: st'_def destroy_Task_tables table_simps pk_simps lid)
  have gone2: "\<forall>s\<in>set subTasks. Model_findByPk SubTaskModel (get s ''subTaskID'') st' = None"
    by (auto intro!: findByPk_None_filter
        simp: st'_def st1_def destroy_Task_tables destroyAll_SubTasks table_simps pk_simps get_put)
  show ?thesis
    using gone1 kept noTask gone2
    by (simp add: Some run Let_def envelopes_differ status_success TaskService_findTaskByID_def
          subTasks_def[symmetric] st1_def[symmetric] loaded_def[symmetric] st'_def[symmetric])
qed

theorem deleteTask_cascade_witness:
  "Model_findByPk TaskModel (Str ''id-'') taskStore \<noteq> None \<and>
   length (children taskStore ''SubTasks'' ''taskID'' (Str ''id-'')) = 2 \<and>
   fst (TaskService_findTaskByID (Str ''id-'') (snd (TaskService_deleteTask (Str ''id-'') taskStore))) =
     failure (snd (TaskService_deleteTask (Str ''id-'') taskStore)) ''Task not found'' \<and>
   list_all (\<lambda>s. Model_findByPk SubTaskModel (get s ''subTaskID'')
                   (snd (TaskService_deleteTask (Str ''id-'') taskStore)) = None)
     (children taskStore ''SubTasks'' ''taskID'' (Str ''id-'')) \<and>
   Model_findByPk TaskModel (Str ''t1'') crossStore \<noteq> None \<and>
   children crossStore ''SubTasks'' ''taskID'' (Str ''t1'') = [] \<and>
   propOf (fst (TaskService_deleteTask (Str ''t1'') crossStore)) ''status'' = Str ''success'' \<and>
   Model_findByPk TaskModel (Str ''t2'') crossStore = None \<and>
   fst (TaskService_deleteTask (Str ''t2'') crossStore) = failure crossStore ''Task not found''"
proof -
  have ne: "Model_findByPk TaskModel (Str ''id-'') taskStore \<noteq> None" by code_simp
  then obtain t where t: "Model_findByPk TaskModel (Str ''id-'') taskStore = Some t" by auto
  have n: "length (children taskStore ''SubTasks'' ''taskID'' (Str ''id-'')) = 2" by code_simp
  from findByPk_Some[OF t] have tid: "get t ''taskID'' = Str ''id-''" by (simp add: pk_simps)
  note th = deleteTask_cascade[of "Str ''id-''" taskStore, THEN conjunct2, rule_format, OF t,
      unfolded Let_def tid]
  from th have a: "fst (TaskService_findTaskByID (Str ''id-'') (snd (TaskService_deleteTask (Str ''id-'') taskStore))) =
     failure (snd (TaskService_deleteTask (Str ''id-'') taskStore)) ''Task not found''"
    by blast
  from th have b: "\<forall>s\<in>set (children taskStore ''SubTasks'' ''taskID'' (Str ''id-'')).
      Model_findByPk SubTaskModel (get s ''subTaskID'') (snd (TaskService_deleteTask (Str ''id-'') taskStore)) = None"
    by blast
  have ne1: "Model_findByPk TaskModel (Str ''t1'') crossStore \<noteq> None" by code_simp
  then obtain t1 where t1: "Model_findByPk TaskModel (Str ''t1'') crossStore = Some t1" by auto
  have z: "children crossStore ''SubTasks'' ''taskID'' (Str ''t1'') = []" by code_simp
  from deleteTask_cascade[of "Str ''t1''" crossStore, THEN conjunct2, rule_format, OF t1, unfolded Let_def]
  have c: "propOf (fst (TaskService_deleteTask (Str ''t1'') crossStore)) ''status'' = Str ''success''"
    by blast
  have no: "Model_findByPk TaskModel (Str ''t2'') crossStore = None" by code_simp
  with deleteTask_cascade[of "Str ''t2''" crossStore, THEN conjunct1]
  have d: "fst (TaskService_deleteTask (Str ''t2'') crossStore) = failure crossStore ''Task not found''"
    by blast
  from ne n a b ne1 z c no d show ?thesis by (simp add: list_all_iff)
qed

text \<open>
  C3. A notification created through the service, or through the controller with any
  request body, is stored with \<open>readStatus\<close> \<open>Unread\<close>. No operation of the
  notification service takes a notification that is \<open>Read\<close> to another status: if it
  is still found afterwards, it is \<open>Read\<close>. \<open>markAsRead\<close> on a notification that is
  already \<open>Read\<close> succeeds and leaves the store as it was; on any existing notification
  it succeeds, the notification is \<open>Read\<close> afterwards, and a second call succeeds and
  changes nothing.
\<close>

theorem notification_read_status:
  "(\<forall>res st'. NotificationService_createNotification userID content type st = (res, st') \<and>
        propOf res ''status'' = Str ''success'' \<longrightarrow>
      (\<exists>row. propOf res ''message'' = Obj row \<and> get row ''readStatus'' = Str ''Unread'' \<and>
             tables st' ''Notifications'' = tables st ''Notifications'' @ [row])) \<and>
   (\<forall>res st'. NotificationController_createNotification body st = ((201, res), st') \<longrightarrow>
      (\<exists>row. propOf res ''message'' = Obj row \<and> get row ''readStatus'' = Str ''Unread'' \<and>
             tables st' ''Notifications'' = tables st ''Notifications'' @ [row])) \<and>
   (\<forall>r r'. Model_findByPk NotificationModel n st = Some r \<and> get r ''readStatus'' = Str ''Read'' \<and>
      Model_findByPk NotificationModel n (snd (runNotificationOp op st)) = Some r' \<longrightarrow>
      get r' ''readStatus'' = Str ''Read'') \<and>
   (\<forall>r. Model_findByPk NotificationModel n st = Some r \<and> get r ''readStatus'' = Str ''Read'' \<longrightarrow>
      NotificationService_markAsRead n st = (success st (Obj r), st)) \<and>
   (\<forall>r. Model_findByPk NotificationModel n st = Some r \<longrightarrow>
      propOf (fst (NotificationService_markAsRead n st)) ''status'' = Str ''success'' \<and>
      (\<exists>r'. Model_findByPk NotificationModel n (snd (NotificationService_markAsRead n st)) = Some r' \<and>
            get r' ''readStatus'' = Str ''Read'' \<and>
            NotificationService_markAsRead n (snd (NotificationService_markAsRead n st)) =
              (success (snd (NotificationService_markAsRead n st)) (Obj r'),
               snd (NotificationService_markAsRead n st))))"
proof (intro conjI allI impI)
  fix res st'
  assume "NotificationService_createNotification userID content type st = (res, st') \<and>
        propOf res ''status'' = Str ''success''"
  then show "\<exists>row. propOf res ''message'' = Obj row \<and> get row ''readStatus'' = Str ''Unread'' \<and>
             tables st' ''Notifications'' = tables st ''Notifications'' @ [row]"
    using createNotification_unread by blast
next
  fix res st'
  assume a: "NotificationController_createNotification body st = ((201, res), st')"
  let ?s = "NotificationService_createNotification (get body ''userID'') (get body ''message'') Undefined st"
  from a have "?s = (res, st')" "propOf res ''status'' = Str ''success''"
    by (auto simp: NotificationController_createNotification_def respond_def prod_eq_iff split: if_splits)
  then show "\<exists>row. propOf res ''message'' = Obj row \<and> get row ''readStatus'' = Str ''Unread'' \<and>
             tables st' ''Notifications'' = tables st ''Notifications'' @ [row]"
    using createNotification_unread by blast
next
  fix r r'
  assume "Model_findByPk NotificationModel n st = Some r \<and> get r ''readStatus'' = Str ''Read'' \<and>
      Model_findByPk NotificationModel n (snd (runNotificationOp op st)) = Some r'"
  then show "get r' ''readStatus'' = Str ''Read''" using read_stays_read by blast
next
  fix r
  assume "Model_findByPk NotificationModel n st = Some r \<and> get r ''readStatus'' = Str ''Read''"
  then show "NotificationService_markAsRead n st = (success st (Obj r), st)"
    by (simp add: markAsRead_found)
next
  fix r
  assume r: "Model_findByPk NotificationModel n st = Some r"
  then show "propOf (fst (NotificationService_markAsRead n st)) ''status'' = Str ''success''"
    by (simp add: markAsRead_found status_success)
next
  fix r
  assume r: "Model_findByPk NotificationModel n st = Some r"
  let ?st = "snd (NotificationService_markAsRead n st)"
  let ?P = "\<lambda>x. get x ''notificationID'' = n"
  let ?f = "\<lambda>x. if get x ''notificationID'' = n then markRead st x else x"
  from findByPk_Some[OF r] have nn: "n \<noteq> Null" "n \<noteq> Undefined" and rn: "get r ''notificationID'' = n"
    by (auto simp: pk_simps)
  from r nn have f: "find ?P (tables st ''Notifications'') = Some r"
    by (simp add: findByPk_rows pk_simps table_simps)
  have "\<exists>r'. Model_findByPk NotificationModel n ?st = Some r' \<and> get r' ''readStatus'' = Str ''Read''"
  proof (cases "get r ''readStatus'' = Str ''Read''")
    case True
    with r show ?thesis by (simp add: markAsRead_found)
  next
    case False
    then have st: "?st = setRows st ''Notifications'' (map ?f (tables st ''Notifications''))"
      by (simp add: markAsRead_found[OF r])
    have "find ?P (map ?f (tables st ''Notifications'')) = map_option ?f (find ?P (tables st ''Notifications''))"
      by (rule find_map_same) (simp add: markRead_get)
    with f nn have "Model_findByPk NotificationModel n ?st = Some (markRead st r)"
      by (simp add: st findByPk_rows pk_simps table_simps tables_setRows rn)
    then show ?thesis by (simp add: markRead_get)
  qed
  then obtain r' where r': "Model_findByPk NotificationModel n ?st = Some r'"
    "get r' ''readStatus'' = Str ''Read''" by blast
  then have "NotificationService_markAsRead n ?st = (success ?st (Obj r'), ?st)"
    by (simp add: markAsRead_found)
  with r' show "\<exists>r'. Model_findByPk NotificationModel n ?st = Some r' \<and>
            get r' ''readStatus'' = Str ''Read'' \<and>
            NotificationService_markAsRead n ?st = (success ?st (Obj r'), ?st)"
    by blast
qed

theorem notification_read_status_witness:
  "get noteBody ''readStatus'' = Str ''Read'' \<and>
   fst (fst (NotificationController_createNotification noteBody emptyStore)) = 201 \<and>
   map (\<lambda>r. get r ''readStatus'') (tables noteStore ''Notifications'') = [Str ''Unread''] \<and>
   Model_findByPk NotificationModel (Str ''id-'') noteStore \<noteq> None \<and>
   propOf (fst (NotificationService_markAsRead (Str ''id-'') noteStore)) ''status'' = Str ''success'' \<and>
   propOf (fst (NotificationService_markAsRead (Str ''id-'')
                  (snd (NotificationService_markAsRead (Str ''id-'') noteStore)))) ''status'' = Str ''success'' \<and>
   snd (NotificationService_markAsRead (Str ''id-'')
          (snd (NotificationService_markAsRead (Str ''id-'') noteStore))) =
     snd (NotificationService_markAsRead (Str ''id-'') noteStore)"
proof -
  note th = notification_read_status[of Undefined Undefined Undefined emptyStore noteBody "Str ''id-''" "MarkAsRead (Str ''id-'')"]
  have h0: "get noteBody ''readStatus'' = Str ''Read''" by code_simp
  have h1: "fst (fst (NotificationController_createNotification noteBody emptyStore)) = 201" by code_simp
  then have "NotificationController_createNotification noteBody emptyStore =
      ((201, snd (fst (NotificationController_createNotification noteBody emptyStore))), noteStore)"
    by (simp add: noteStore_def prod_eq_iff)
  with th have "\<exists>row. get row ''readStatus'' = Str ''Unread'' \<and>
      tables noteStore ''Notifications'' = tables emptyStore ''Notifications'' @ [row]" by blast
  then have h2: "map (\<lambda>r. get r ''readStatus'') (tables noteStore ''Notifications'') = [Str ''Unread'']"
    by (auto simp: emptyStore_def)
  have h3: "Model_findByPk NotificationModel (Str ''id-'') noteStore \<noteq> None" by code_simp
  then obtain r where r: "Model_findByPk NotificationModel (Str ''id-'') noteStore = Some r" by auto
  note th2 = notification_read_status[of Undefined Undefined Undefined noteStore noteBody "Str ''id-''" "MarkAsRead (Str ''id-'')"]
  from th2 r have h4: "propOf (fst (NotificationService_markAsRead (Str ''id-'') noteStore)) ''status'' = Str ''success''"
    by blast
  from th2 r obtain r' where
    "NotificationService_markAsRead (Str ''id-'') (snd (NotificationService_markAsRead (Str ''id-'') noteStore)) =
       (success (snd (NotificationService_markAsRead (Str ''id-'') noteStore)) (Obj r'),
        snd (NotificationService_markAsRead (Str ''id-'') noteStore))" by blast
  then have h5: "propOf (fst (NotificationService_markAsRead (Str ''id-'')
                  (snd (NotificationService_markAsRead (Str ''id-'') noteStore)))) ''status'' = Str ''success''"
    and h6: "snd (NotificationService_markAsRead (Str ''id-'')
          (snd (NotificationService_markAsRead (Str ''id-'') noteStore))) =
     snd (NotificationService_markAsRead (Str ''id-'') noteStore)"
    by (simp_all add: status_success)
  from h0 h1 h2 h3 h4 h5 h6 show ?thesis by blast
qed

text \<open>
  C4. For an existing task: whatever the outcome, no subtask row disappears or changes its
  identifier, and a row whose identifier no entry carries is left as it was
  (\<open>keepsOthers\<close>). When the update succeeds, the task row holds the partial update
  (\<open>patched\<close>: the defined columns from the update, the others as before), every entry's
  call was accepted, and the table has grown by one row per entry without a
  \<open>subTaskID\<close>. An accepted entry with a \<open>subTaskID\<close> updates the rows of that
  identifier in place and adds none; an accepted entry without one appends exactly one row,
  whose \<open>taskID\<close> is the task's.
\<close>

theorem updateTask_effects:
  assumes "Model_findByPk TaskModel taskID st = Some t"
  shows
   "keepsOthers entries (tables st ''SubTasks'')
      (tables (snd (TaskService_updateTask taskID vals entries st)) ''SubTasks'') \<and>
    (propOf (fst (TaskService_updateTask taskID vals entries st)) ''status'' = Str ''success'' \<longrightarrow>
       (\<exists>row. Model_findByPk TaskModel taskID (snd (TaskService_updateTask taskID vals entries st)) = Some row \<and>
              patched TaskModel vals t row) \<and>
       (\<exists>taskToUpdate st1 rs.
          get taskToUpdate ''taskID'' = taskID \<and>
          runAll (updateOrCreateSubTask taskToUpdate) entries st1 =
            (rs, snd (TaskService_updateTask taskID vals entries st)) \<and>
          (\<forall>r\<in>set rs. r = Inr ())) \<and>
       length (tables (snd (TaskService_updateTask taskID vals entries st)) ''SubTasks'') =
         length (tables st ''SubTasks'') +
         length (filter (\<lambda>e. \<not> truthy (get e ''subTaskID'')) entries)) \<and>
    (\<forall>taskToUpdate e s s'.
       truthy (get e ''subTaskID'') \<and> updateOrCreateSubTask taskToUpdate e s = (Inr (), s') \<longrightarrow>
       length (tables s' ''SubTasks'') = length (tables s ''SubTasks'') \<and>
       keepsOthers [e] (tables s ''SubTasks'') (tables s' ''SubTasks'') \<and>
       (\<forall>j<length (tables s ''SubTasks'').
          get (tables s ''SubTasks'' ! j) ''subTaskID'' = get e ''subTaskID'' \<longrightarrow>
          patched SubTaskModel e (tables s ''SubTasks'' ! j) (tables s' ''SubTasks'' ! j))) \<and>
    (\<forall>taskToUpdate e s s'.
       \<not> truthy (get e ''subTaskID'') \<and> get taskToUpdate ''taskID'' = taskID \<and>
       updateOrCreateSubTask taskToUpdate e s = (Inr (), s') \<longrightarrow>
       (\<exists>row. tables s' ''SubTasks'' = tables s ''SubTasks'' @ [row] \<and> get row ''taskID'' = taskID))"
proof -
  note f = assms
  let ?res = "TaskService_updateTask taskID vals entries st"
  let ?l = "put t ''SubTasks'' (includeMany st ''SubTasks'' ''taskID'' None (get t ''taskID''))"
  from findByPk_Some[OF f] have nn: "taskID \<noteq> Undefined" by simp
  have lk: "\<forall>k\<in>set (columnNames TaskModel). get ?l k = get t k"
    by (auto simp: get_put columnNames_def TaskModel_def)
  have whole: "keepsOthers entries (tables st ''SubTasks'') (tables (snd ?res) ''SubTasks'') \<and>
    (propOf (fst ?res) ''status'' = Str ''success'' \<longrightarrow>
       (\<exists>row. Model_findByPk TaskModel taskID (snd ?res) = Some row \<and> patched TaskModel vals t row) \<and>
       (\<exists>taskToUpdate st1 rs.
          get taskToUpdate ''taskID'' = taskID \<and>
          runAll (updateOrCreateSubTask taskToUpdate) entries st1 = (rs, snd ?res) \<and>
          (\<forall>r\<in>set rs. r = Inr ())) \<and>
       length (tables (snd ?res) ''SubTasks'') =
         length (tables st ''SubTasks'') + length (filter (\<lambda>e. \<not> truthy (get e ''subTaskID'')) entries))"
    using updateTask_unfold[OF f, of vals entries]
  proof (elim disjE exE conjE)
    fix e assume "?res = (failure st e, st)"
    then show ?thesis by (simp add: keepsOthers_refl status_failure)
  next
    fix t' st1 rs st2
    assume u: "Instance_update TaskModel ?l vals st = (Inr t', st1)"
      and ra: "runAll (updateOrCreateSubTask t') entries st1 = (rs, st2)"
      and st2: "snd ?res = st2"
      and ok: "propOf (fst ?res) ''status'' = Str ''success'' \<longrightarrow> (\<exists>us. awaitAll rs = Inr us)"
    note tu = Task_update_Inr[OF f lk u]
    note rs = runAll_steps[OF ra]
    from tu(2) have s1: "tables st1 ''SubTasks'' = tables st ''SubTasks''" by simp
    from rs have t2: "tables st2 ''Tasks'' = tables st1 ''Tasks''" by simp
    from tu(3) obtain row where row: "Model_findByPk TaskModel taskID st1 = Some row" "patched TaskModel vals t row"
      by blast
    from row(1) t2 have fr2: "Model_findByPk TaskModel taskID st2 = Some row"
      using findByPk_cong[of st2 TaskModel st1] by (simp add: table_simps)
    show ?thesis
    proof (intro conjI impI)
      from rs show "keepsOthers entries (tables st ''SubTasks'') (tables (snd ?res) ''SubTasks'')"
        by (simp add: st2 s1)
    next
      from fr2 row(2) show "\<exists>row. Model_findByPk TaskModel taskID (snd ?res) = Some row \<and> patched TaskModel vals t row"
        by (auto simp: st2)
    next
      assume "propOf (fst ?res) ''status'' = Str ''success''"
      with ok obtain us where "awaitAll rs = Inr us" by blast
      from awaitAll_all_Inr[OF this] have "\<forall>r\<in>set rs. r = Inr ()" by auto
      with tu(1) ra show "\<exists>taskToUpdate st1 rs.
          get taskToUpdate ''taskID'' = taskID \<and>
          runAll (updateOrCreateSubTask taskToUpdate) entries st1 = (rs, snd ?res) \<and>
          (\<forall>r\<in>set rs. r = Inr ())"
        unfolding st2 by blast
    next
      assume "propOf (fst ?res) ''status'' = Str ''success''"
      with ok obtain us where "awaitAll rs = Inr us" by blast
      with rs show "length (tables (snd ?res) ''SubTasks'') =
         length (tables st ''SubTasks'') + length (filter (\<lambda>e. \<not> truthy (get e ''subTaskID'')) entries)"
        by (simp add: st2 s1)
    qed
  qed
  have upd: "\<forall>taskToUpdate e s s'.
       truthy (get e ''subTaskID'') \<and> updateOrCreateSubTask taskToUpdate e s = (Inr (), s') \<longrightarrow>
       length (tables s' ''SubTasks'') = length (tables s ''SubTasks'') \<and>
       keepsOthers [e] (tables s ''SubTasks'') (tables s' ''SubTasks'') \<and>
       (\<forall>j<length (tables s ''SubTasks'').
          get (tables s ''SubTasks'' ! j) ''subTaskID'' = get e ''subTaskID'' \<longrightarrow>
          patched SubTaskModel e (tables s ''SubTasks'' ! j) (tables s' ''SubTasks'' ! j))"
  proof (intro allI impI, elim conjE)
    fix taskToUpdate e s s'
    assume i: "truthy (get e ''subTaskID'')" and u: "updateOrCreateSubTask taskToUpdate e s = (Inr (), s')"
    from step_update(2)[OF i u] step_update(1)[OF i u] step_update(4)[OF i u refl]
    show "length (tables s' ''SubTasks'') = length (tables s ''SubTasks'') \<and>
       keepsOthers [e] (tables s ''SubTasks'') (tables s' ''SubTasks'') \<and>
       (\<forall>j<length (tables s ''SubTasks'').
          get (tables s ''SubTasks'' ! j) ''subTaskID'' = get e ''subTaskID'' \<longrightarrow>
          patched SubTaskModel e (tables s ''SubTasks'' ! j) (tables s' ''SubTasks'' ! j))"
      by (intro conjI)
  qed
  have cre: "\<forall>taskToUpdate e s s'.
       \<not> truthy (get e ''subTaskID'') \<and> get taskToUpdate ''taskID'' = taskID \<and>
       updateOrCreateSubTask taskToUpdate e s = (Inr (), s') \<longrightarrow>
       (\<exists>row. tables s' ''SubTasks'' = tables s ''SubTasks'' @ [row] \<and> get row ''taskID'' = taskID)"
  proof (intro allI impI, elim conjE)
    fix taskToUpdate e s s'
    assume i: "\<not> truthy (get e ''subTaskID'')" and tk: "get taskToUpdate ''taskID'' = taskID"
      and u: "updateOrCreateSubTask taskToUpdate e s = (Inr (), s')"
    from nn tk have "get taskToUpdate ''taskID'' \<noteq> Undefined" by simp
    from step_create(4)[OF i u refl this] tk
    show "\<exists>row. tables s' ''SubTasks'' = tables s ''SubTasks'' @ [row] \<and> get row ''taskID'' = taskID"
      by simp
  qed
  from whole upd cre show ?thesis by (intro conjI) (elim conjE, assumption)+
qed

theorem updateTask_effects_witness:
  "Model_findByPk TaskModel (Str ''id-'') taskStore \<noteq> None \<and>
   map (\<lambda>r. (get r ''subTaskID'', get r ''title'', get r ''status'')) (tables taskStore ''SubTasks'')
     = [(Str ''id-i'', Str ''Draft'', Str ''Pending''), (Str ''id-ii'', Str ''Review'', Str ''Pending'')] \<and>
   propOf (fst (TaskService_updateTask (Str ''id-'') scenarioPatch scenarioEntries taskStore)) ''status''
     = Str ''success'' \<and>
   map (\<lambda>r. get r ''status'')
     (tables (snd (TaskService_updateTask (Str ''id-'') scenarioPatch scenarioEntries taskStore)) ''Tasks'')
     = [Str ''Completed''] \<and>
   map (\<lambda>r. (get r ''title'', get r ''status'', get r ''taskID''))
     (tables (snd (TaskService_updateTask (Str ''id-'') scenarioPatch scenarioEntries taskStore)) ''SubTasks'')
     = [(Str ''Draft'', Str ''Completed'', Str ''id-''), (Str ''Review'', Str ''Pending'', Str ''id-''),
        (Str ''new'', Str ''Pending'', Str ''id-'')] \<and>
   tables (snd (TaskService_updateTask (Str ''id-'') scenarioPatch scenarioEntries taskStore)) ''SubTasks'' ! 1
     = tables taskStore ''SubTasks'' ! 1"
proof -
  let ?res = "TaskService_updateTask (Str ''id-'') scenarioPatch scenarioEntries taskStore"
  have ne: "Model_findByPk TaskModel (Str ''id-'') taskStore \<noteq> None" by code_simp
  then obtain t where t: "Model_findByPk TaskModel (Str ''id-'') taskStore = Some t" by auto
  have old: "map (\<lambda>r. (get r ''subTaskID'', get r ''title'', get r ''status'')) (tables taskStore ''SubTasks'')
     = [(Str ''id-i'', Str ''Draft'', Str ''Pending''), (Str ''id-ii'', Str ''Review'', Str ''Pending'')]"
    by code_simp
  then have len: "1 < length (tables taskStore ''SubTasks'')"
    using length_map[of "\<lambda>r. (get r ''subTaskID'', get r ''title'', get r ''status'')" "tables taskStore ''SubTasks''"]
    by simp
  have ok: "propOf (fst ?res) ''status'' = Str ''success''" by code_simp
  have tk: "map (\<lambda>r. get r ''status'') (tables (snd ?res) ''Tasks'') = [Str ''Completed'']" by code_simp
  have new: "map (\<lambda>r. (get r ''title'', get r ''status'', get r ''taskID'')) (tables (snd ?res) ''SubTasks'')
     = [(Str ''Draft'', Str ''Completed'', Str ''id-''), (Str ''Review'', Str ''Pending'', Str ''id-''),
        (Str ''new'', Str ''Pending'', Str ''id-'')]" by code_simp
  have "list_all (\<lambda>e. truthy (get e ''subTaskID'') \<longrightarrow>
            get e ''subTaskID'' \<noteq> get (tables taskStore ''SubTasks'' ! 1) ''subTaskID'') scenarioEntries"
    by code_simp
  then have un: "\<forall>e\<in>set scenarioEntries. truthy (get e ''subTaskID'') \<longrightarrow>
            get e ''subTaskID'' \<noteq> get (tables taskStore ''SubTasks'' ! 1) ''subTaskID''"
    by (simp add: list_all_iff)
  from updateTask_effects[OF t, of scenarioEntries scenarioPatch]
  have "keepsOthers scenarioEntries (tables taskStore ''SubTasks'') (tables (snd ?res) ''SubTasks'')"
    by (elim conjE)
  with len un have same: "tables (snd ?res) ''SubTasks'' ! 1 = tables taskStore ''SubTasks'' ! 1"
    unfolding keepsOthers_def by blast
  from ne old ok tk new same show ?thesis by (intro conjI)
qed

text \<open>
  C5. When the task row is created (\<open>newTask\<close>, leaving the store \<open>st1\<close>, which has
  the task and no new subtask), the subtask entries are created from \<open>st1\<close> on, one
  result per entry, each created row carrying the new task's identifier as \<open>taskID\<close>.
  The store \<open>saveTask\<close> leaves is the one after all entries: it holds the task row and
  every subtask whose creation succeeded, also when another entry failed and the answer
  is an error. Nothing is rolled back.
\<close>

theorem saveTask_not_atomic:
  assumes "Model_create TaskModel taskData st = (Inr newTask, st1)"
    and "runAll (createSubTask newTask) subTasksData st1 = (rs, st2)"
  shows "snd (TaskService_saveTask taskData subTasksData st) = st2 \<and>
         Model_findByPk TaskModel (get newTask ''taskID'') st1 = Some newTask \<and>
         tables st1 ''SubTasks'' = tables st ''SubTasks'' \<and>
         length rs = length subTasksData \<and>
         tables st2 ''SubTasks'' = tables st ''SubTasks'' @ resolved rs \<and>
         (\<forall>row\<in>set (resolved rs). get row ''taskID'' = get newTask ''taskID'') \<and>
         Model_findByPk TaskModel (get newTask ''taskID'') st2 = Some newTask \<and>
         ((\<exists>e. Inl e \<in> set rs) \<longrightarrow>
            propOf (fst (TaskService_saveTask taskData subTasksData st)) ''status'' = Str ''error'') \<and>
         (\<not> (\<exists>e. Inl e \<in> set rs) \<longrightarrow>
            propOf (fst (TaskService_saveTask taskData subTasksData st)) ''status'' = Str ''success'')"
proof -
  note c = assms(1) and r = assms(2)
  from create_findByPk[OF keyed_models(1) c]
  have f1: "Model_findByPk TaskModel (get newTask ''taskID'') st1 = Some newTask" by (simp add: pk_simps)
  from findByPk_Some[OF f1] have t: "get newTask ''taskID'' \<noteq> Undefined" by simp
  note ra = runAll_createSubTask[OF t r]
  from Model_create_tables[OF c, of "''SubTasks''"] have s1: "tables st1 ''SubTasks'' = tables st ''SubTasks''"
    by (simp add: table_simps)
  from ra have "tables st2 ''Tasks'' = tables st1 ''Tasks''" by simp
  then have f2: "Model_findByPk TaskModel (get newTask ''taskID'') st2 = Some newTask"
    using f1 findByPk_cong[of st2 TaskModel st1] by (simp add: table_simps)
  have st: "snd (TaskService_saveTask taskData subTasksData st) = st2"
    by (simp add: TaskService_saveTask_def c r split: sum.splits)
  have er: "(\<exists>e. Inl e \<in> set rs) \<longrightarrow>
            propOf (fst (TaskService_saveTask taskData subTasksData st)) ''status'' = Str ''error''"
    using awaitAll_Inl[of rs]
    by (auto simp: TaskService_saveTask_def c r status_failure split: sum.splits)
  have ok: "\<not> (\<exists>e. Inl e \<in> set rs) \<longrightarrow>
            propOf (fst (TaskService_saveTask taskData subTasksData st)) ''status'' = Str ''success''"
    using awaitAll_Inl[of rs]
    by (auto simp: TaskService_saveTask_def c r status_success split: sum.splits)
  from st f1 s1 ra f2 er ok show ?thesis by (simp add: s1)
qed

theorem saveTask_not_atomic_witness:
  "propOf (fst (TaskService_saveTask [(''title'', Str ''Write report'')] partialData emptyStore)) ''status''
     = Str ''error'' \<and>
   map (\<lambda>r. get r ''title'')
     (tables (snd (TaskService_saveTask [(''title'', Str ''Write report'')] partialData emptyStore)) ''Tasks'')
     = [Str ''Write report''] \<and>
   map (\<lambda>r. (get r ''title'', get r ''taskID''))
     (tables (snd (TaskService_saveTask [(''title'', Str ''Write report'')] partialData emptyStore)) ''SubTasks'')
     = [(Str ''Draft'', Str ''id-''), (Str ''Review'', Str ''id-'')] \<and>
   Model_findByPk TaskModel (Str ''id-'')
     (snd (TaskService_saveTask [(''title'', Str ''Write report'')] partialData emptyStore)) \<noteq> None"
proof -
  let ?d = "[(''title'', Str ''Write report'')]"
  let ?c = "Model_create TaskModel ?d emptyStore"
  let ?t = "projr (fst ?c)"
  let ?r = "runAll (createSubTask ?t) partialData (snd ?c)"
  have "fst ?c = Inr ?t" by code_simp
  then have c: "?c = (Inr ?t, snd ?c)" by (simp add: prod_eq_iff)
  have r: "?r = (fst ?r, snd ?r)" by simp
  note th = saveTask_not_atomic[OF c r]
  have fail: "Inl ''notNull Violation: SubTasks.title cannot be null'' \<in> set (fst ?r)" by code_simp
  have tid: "get ?t ''taskID'' = Str ''id-''" by code_simp
  from th fail have a: "propOf (fst (TaskService_saveTask ?d partialData emptyStore)) ''status'' = Str ''error''"
    by blast
  from th tid have d: "Model_findByPk TaskModel (Str ''id-'') (snd (TaskService_saveTask ?d partialData emptyStore)) \<noteq> None"
    by simp
  have b: "map (\<lambda>r. get r ''title'') (tables (snd (TaskService_saveTask ?d partialData emptyStore)) ''Tasks'')
     = [Str ''Write report'']" by code_simp
  have e: "map (\<lambda>r. (get r ''title'', get r ''taskID''))
     (tables (snd (TaskService_saveTask ?d partialData emptyStore)) ''SubTasks'')
     = [(Str ''Draft'', Str ''id-''), (Str ''Review'', Str ''id-'')]" by code_simp
  from a b e d show ?thesis by blast
qed

text \<open>
  C6. The claim: every task returned by the tag-name search belongs to the given workspace.
  On the code, in a store where a tag of workspace \<open>w1\<close> is attached to a task of
  workspace \<open>w2\<close>, the search for that tag in workspace \<open>w1\<close> returns the task of
  workspace \<open>w2\<close>, while the listing of all tasks of workspace \<open>w1\<close> is empty.
  (The other listings of tasks, tags and categories are scoped: \<open>scoped_listings\<close>.)
\<close>

theorem findTasksByTag_returns_other_workspace:
  "map (\<lambda>t. propOf t ''workspaceID'')
     (items (propOf (fst (TaskService_findTasksByTag (Str ''urgent'') (Str ''w1'') crossStore)) ''message''))
     = [Str ''w2''] \<and>
   items (propOf (fst (TaskService_findAllTasks (Str ''w1'') crossStore)) ''message'') = []"
  by code_simp

text \<open>
  C7. The claim names the failures \<open>"Incorrect email"\<close> and \<open>"Incorrect password"\<close>. The
  strategy's messages end in a full stop: for an unknown e-mail, and for a wrong password
  of a known one, the results are \<open>"Incorrect email."\<close> and \<open>"Incorrect password."\<close>.
\<close>

theorem verify_message_counterexample:
  "LocalStrategy_verify (\<lambda>p h. p = h) ''bob@example.org'' ''correct horse'' annStore
     = DoneFalse ''Incorrect email.'' \<and>
   LocalStrategy_verify (\<lambda>p h. p = h) ''bob@example.org'' ''correct horse'' annStore
     \<noteq> DoneFalse ''Incorrect email'' \<and>
   LocalStrategy_verify (\<lambda>p h. p = h) ''ann@example.org'' ''wrong horse'' annStore
     = DoneFalse ''Incorrect password.'' \<and>
   LocalStrategy_verify (\<lambda>p h. p = h) ''ann@example.org'' ''wrong horse'' annStore
     \<noteq> DoneFalse ''Incorrect password''"
  by code_simp

text \<open>
  C7, amended. When no user has the e-mail, the check fails with the message
  \<open>"Incorrect email."\<close>. Otherwise, with the stored \<open>Password\<close> of the user of that
  e-mail, it fails with \<open>"Incorrect password."\<close> when the hash comparison of the given
  password against the stored value fails, and succeeds with the user when it holds.
\<close>

theorem verify_cases:
  "((\<forall>u\<in>set (tables st ''Users''). get u ''Email'' \<noteq> Str email) \<longrightarrow>
      LocalStrategy_verify compare email password st = DoneFalse ''Incorrect email.'') \<and>
   (\<forall>user hash.
      find (\<lambda>u. get u ''Email'' = Str email) (tables st ''Users'') = Some user \<and>
      get user ''Password'' = Str hash \<longrightarrow>
      LocalStrategy_verify compare email password st =
        (if compare password hash then DoneUser user else DoneFalse ''Incorrect password.''))"
proof (intro conjI impI allI)
  assume "\<forall>u\<in>set (tables st ''Users''). get u ''Email'' \<noteq> Str email"
  then have "find (\<lambda>u. get u ''Email'' = Str email) (tables st ''Users'') = None"
    by (simp add: find_None_iff)
  then show "LocalStrategy_verify compare email password st = DoneFalse ''Incorrect email.''"
    by (simp add: LocalStrategy_verify_def findOne_Email)
next
  fix user hash
  assume "find (\<lambda>u. get u ''Email'' = Str email) (tables st ''Users'') = Some user \<and>
      get user ''Password'' = Str hash"
  then show "LocalStrategy_verify compare email password st =
        (if compare password hash then DoneUser user else DoneFalse ''Incorrect password.'')"
    by (simp add: LocalStrategy_verify_def findOne_Email)
qed

theorem verify_cases_witness:
  "list_all (\<lambda>u. get u ''Email'' \<noteq> Str ''bob@example.org'') (tables annStore ''Users'') \<and>
   LocalStrategy_verify (\<lambda>p h. p = h) ''bob@example.org'' ''correct horse'' annStore
     = DoneFalse ''Incorrect email.'' \<and>
   find (\<lambda>u. get u ''Email'' = Str ''ann@example.org'') (tables annStore ''Users'') \<noteq> None \<and>
   LocalStrategy_verify (\<lambda>p h. p = h) ''ann@example.org'' ''wrong horse'' annStore
     = DoneFalse ''Incorrect password.'' \<and>
   LocalStrategy_verify (\<lambda>p h. p = h) ''ann@example.org'' ''correct horse'' annStore
     = DoneUser (hd (tables annStore ''Users''))"
proof -
  let ?f = "find (\<lambda>u. get u ''Email'' = Str ''ann@example.org'') (tables annStore ''Users'')"
  have h1: "list_all (\<lambda>u. get u ''Email'' \<noteq> Str ''bob@example.org'') (tables annStore ''Users'')"
    by code_simp
  have h2: "?f = Some (hd (tables annStore ''Users''))" by code_simp
  have h3: "get (hd (tables annStore ''Users'')) ''Password'' = Str ''correct horse''" by code_simp
  from h1 have a: "LocalStrategy_verify (\<lambda>p h. p = h) ''bob@example.org'' ''correct horse'' annStore
     = DoneFalse ''Incorrect email.''"
    using verify_cases[of annStore "''bob@example.org''" "\<lambda>p h. p = h" "''correct horse''", THEN conjunct1]
    by (simp add: list_all_iff)
  note c = verify_cases[of annStore "''ann@example.org''" "\<lambda>p h. p = h", THEN conjunct2, rule_format, OF conjI, OF h2 h3]
  have b: "LocalStrategy_verify (\<lambda>p h. p = h) ''ann@example.org'' ''wrong horse'' annStore
     = DoneFalse ''Incorrect password.''"
    using c[of "''wrong horse''"] by simp
  have d: "LocalStrategy_verify (\<lambda>p h. p = h) ''ann@example.org'' ''correct horse'' annStore
     = DoneUser (hd (tables annStore ''Users''))"
    using c[of "''correct horse''"] by simp
  from h1 h2 a b d show ?thesis by simp
qed

text \<open>
  C8. The claim: the stored password is only ever a hash, and the create path never stores
  the caller's plaintext password. On the code, creating a user through the controller
  stores the \<open>Password\<close> of the request as it came, and so does updating the user.
\<close>

theorem createUser_stores_password_verbatim:
  "get annData ''Password'' = Str ''correct horse'' \<and>
   fst (fst (UserController_createUser [(''userData'', Obj annData)] emptyStore)) = 201 \<and>
   map (\<lambda>u. get u ''Password'')
     (tables (snd (UserController_createUser [(''userData'', Obj annData)] emptyStore)) ''Users'')
     = [Str ''correct horse''] \<and>
   propOf (fst (UserService_updateUser (Str ''id-'') [(''Password'', Str ''another secret'')] annStore)) ''status''
     = Str ''success'' \<and>
   map (\<lambda>u. get u ''Password'')
     (tables (snd (UserService_updateUser (Str ''id-'') [(''Password'', Str ''another secret'')] annStore)) ''Users'')
     = [Str ''another secret'']"
  by code_simp




text \<open>
  C10. The user search answers 404 with the error envelope "No search parameters provided"
  when neither \<open>firstName\<close> nor \<open>lastName\<close> is given (undefined or empty), and 404
  with the error envelope "No users found matching the criteria" when a name is given and
  no user matches the given names.
\<close>

theorem searchUsersByName_errors:
  "(\<not> truthy (get query ''firstName'') \<and> \<not> truthy (get query ''lastName'') \<longrightarrow>
      UserController_searchUsersByName query st =
        ((404, Messages_error (now st) (Str ''No search parameters provided'')), st)) \<and>
   ((truthy (get query ''firstName'') \<or> truthy (get query ''lastName'')) \<and>
    (\<forall>u\<in>set (tables st ''Users'').
       \<not> ((truthy (get query ''firstName'') \<longrightarrow> get u ''firstName'' = get query ''firstName'') \<and>
          (truthy (get query ''lastName'') \<longrightarrow> get u ''lastName'' = get query ''lastName''))) \<longrightarrow>
      UserController_searchUsersByName query st =
        ((404, Messages_error (now st) (Str ''No users found matching the criteria'')), st))"
proof (intro conjI impI)
  assume "\<not> truthy (get query ''firstName'') \<and> \<not> truthy (get query ''lastName'')"
  then have "searchQuery (get query ''firstName'') (get query ''lastName'') = []"
    by (simp add: searchQuery_def)
  then show "UserController_searchUsersByName query st =
        ((404, Messages_error (now st) (Str ''No search parameters provided'')), st)"
    by (simp add: UserController_searchUsersByName_def UserService_searchUsersByName_def respond_def
        failure_def Messages_error_def get_def)
next
  let ?q = "searchQuery (get query ''firstName'') (get query ''lastName'')"
  assume a: "(truthy (get query ''firstName'') \<or> truthy (get query ''lastName'')) \<and>
    (\<forall>u\<in>set (tables st ''Users'').
       \<not> ((truthy (get query ''firstName'') \<longrightarrow> get u ''firstName'' = get query ''firstName'') \<and>
          (truthy (get query ''lastName'') \<longrightarrow> get u ''lastName'' = get query ''lastName'')))"
  then have ne: "?q \<noteq> []" by (auto simp: searchQuery_def)
  from a have "filter (matches ?q) (tables st ''Users'') = []"
    by (simp add: filter_empty_conv searchQuery_matches)
  then have "Model_findAll UserModel ?q st = Inr []"
    by (simp add: findAll_ok searchQuery_ok table_simps)
  with ne show "UserController_searchUsersByName query st =
        ((404, Messages_error (now st) (Str ''No users found matching the criteria'')), st)"
    by (simp add: UserController_searchUsersByName_def UserService_searchUsersByName_def respond_def
        failure_def Messages_error_def get_def)
qed

theorem searchUsersByName_errors_witness:
  "\<not> truthy (get [] ''firstName'') \<and> \<not> truthy (get [] ''lastName'') \<and>
   fst (UserController_searchUsersByName [] annStore) =
     (404, Messages_error (now annStore) (Str ''No search parameters provided'')) \<and>
   truthy (get [(''firstName'', Str ''Bob'')] ''firstName'') \<and>
   list_all (\<lambda>u. get u ''firstName'' \<noteq> Str ''Bob'') (tables annStore ''Users'') \<and>
   tables annStore ''Users'' \<noteq> [] \<and>
   fst (UserController_searchUsersByName [(''firstName'', Str ''Bob'')] annStore) =
     (404, Messages_error (now annStore) (Str ''No users found matching the criteria''))"
proof -
  have h1: "\<not> truthy (get [] ''firstName'') \<and> \<not> truthy (get [] ''lastName'')"
    by (simp add: get_def)
  have h2: "truthy (get [(''firstName'', Str ''Bob'')] ''firstName'')" by (simp add: get_def)
  have h3: "list_all (\<lambda>u. get u ''firstName'' \<noteq> Str ''Bob'') (tables annStore ''Users'')" by code_simp
  have h4: "tables annStore ''Users'' \<noteq> []" by code_simp
  from h2 h3 have h5: "(truthy (get [(''firstName'', Str ''Bob'')] ''firstName'') \<or> truthy (get [(''firstName'', Str ''Bob'')] ''lastName'')) \<and>
    (\<forall>u\<in>set (tables annStore ''Users'').
       \<not> ((truthy (get [(''firstName'', Str ''Bob'')] ''firstName'') \<longrightarrow> get u ''firstName'' = get [(''firstName'', Str ''Bob'')] ''firstName'') \<and>
          (truthy (get [(''firstName'', Str ''Bob'')] ''lastName'') \<longrightarrow> get u ''lastName'' = get [(''firstName'', Str ''Bob'')] ''lastName'')))"
    by (simp add: list_all_iff get_def)
  note a = searchUsersByName_errors[of "[]" annStore, THEN conjunct1, rule_format, OF h1]
  note b = searchUsersByName_errors[of "[(''firstName'', Str ''Bob'')]" annStore, THEN conjunct2, rule_format, OF h5]
  from h1 h2 h3 h4 a b show ?thesis by simp
qed

end
